theory Spec2Isabelle
  imports Complex_Main "HOL-Library.Word"
begin

section \<open>The ADM filter of libavfilter/vf_adm.c\<close>

text \<open>
  A shallow embedding of the per-frame pipeline of \<^verbatim>\<open>libavfilter/vf_adm.c\<close>:
  \<^verbatim>\<open>adm_dwt2\<close>, \<^verbatim>\<open>adm_decouple\<close>, \<^verbatim>\<open>adm_csf\<close>, \<^verbatim>\<open>adm_cm_thresh\<close>, \<^verbatim>\<open>adm_cm\<close>,
  \<^verbatim>\<open>adm_sum_cube\<close>, \<^verbatim>\<open>compute_adm2\<close> and the sample conversion \<^verbatim>\<open>offset_8bit\<close> /
  \<^verbatim>\<open>offset_10bit\<close>.

  Conventions of the embedding.
  \<^item> C \<^verbatim>\<open>float\<close> and \<^verbatim>\<open>double\<close> values are real numbers: every arithmetic operation is the
    exact one, so rounding, infinities and NaN are outside the model. The libm calls
    \<^verbatim>\<open>fabsf\<close>, \<^verbatim>\<open>powf\<close>, \<^verbatim>\<open>pow\<close>, \<^verbatim>\<open>log10\<close>, \<^verbatim>\<open>cos\<close> are the mathematical functions.
  \<^item> C \<^verbatim>\<open>int\<close> values are integers; the dimensions of a frame are far from the 32-bit
    limits, and overflow (undefined in C) is outside the model. For the non-negative
    operands that occur, C's truncating \<^verbatim>\<open>/\<close> is \<open>div\<close>.
  \<^item> A buffer addressed as \<^verbatim>\<open>p[i * px_stride + j]\<close> is a function of the row \<open>i\<close> and the
    column \<open>j\<close>; the stride arguments, which only fix the row pitch of the flat
    buffer, are dropped. A read outside the rows and columns that were written
    returns whatever the buffer holds there, as in C.
  \<^item> A function that writes through a pointer takes the old contents of the buffer and
    returns the new contents.
  \<^item> Every \<^verbatim>\<open>for\<close> loop is \<open>for_loop\<close> below, the state being the variables the loop
    body assigns.
\<close>

subsection \<open>Loops\<close>

text \<open>\<^verbatim>\<open>for (i = lo; i < n; i++) s = body(i, s);\<close>\<close>

function for_loop :: "int \<Rightarrow> int \<Rightarrow> (int \<Rightarrow> 's \<Rightarrow> 's) \<Rightarrow> 's \<Rightarrow> 's" where
  "for_loop i n body s = (if i < n then for_loop (i + 1) n body (body i s) else s)"
  by pat_completeness auto
termination
  by (relation "measure (\<lambda>(i, n, body, s). nat (n - i))") auto

declare for_loop.simps [simp del]

subsection \<open>Planes, bands and the declarations of adm.h\<close>

type_synonym row = "int \<Rightarrow> real"
type_synonym plane = "int \<Rightarrow> int \<Rightarrow> real"

text \<open>\<^verbatim>\<open>p[i * px_stride + j] = v\<close>\<close>

definition put :: "plane \<Rightarrow> int \<Rightarrow> int \<Rightarrow> real \<Rightarrow> plane" where
  "put p i j v = p(i := (p i)(j := v))"

text \<open>
  \<^verbatim>\<open>adm_dwt_band_t\<close>: four pointers to float planes (approximation, vertical, horizontal
  and diagonal detail).
\<close>

record adm_dwt_band_t =
  band_a :: plane
  band_v :: plane
  band_h :: plane
  band_d :: plane

text \<open>\<^verbatim>\<open>struct dwt_model_params\<close>, with the fields \<^verbatim>\<open>a\<close>, \<^verbatim>\<open>k\<close>, \<^verbatim>\<open>f0\<close>, \<^verbatim>\<open>g[]\<close> that
  \<^verbatim>\<open>dwt_quant_step\<close> reads.\<close>

record dwt_model_params =
  params_a :: real
  params_k :: real
  params_f0 :: real
  params_g :: "real list"

text \<open>
  The constants and tables that vf_adm.c takes from \<^verbatim>\<open>adm.h\<close>, and the SSE instruction
  behind \<^verbatim>\<open>_mm_rcp_ss\<close>. The header is not among the sources, so its declarations are
  parameters of every function that uses them; each field has the name of the
  declaration it stands for.
\<close>

record adm_consts =
  VIEW_DIST :: real
  REF_DISPLAY_HEIGHT :: real
  ADM_BORDER_FACTOR :: real
  dwt2_db2_coeffs_lo :: "real list"
  dwt2_db2_coeffs_hi :: "real list"
  dwt_7_9_YCbCr_threshold :: "dwt_model_params list"
  dwt_7_9_basis_function_amplitudes :: "real list list"
  mm_rcp_ss :: "real \<Rightarrow> real"

text \<open>\<^verbatim>\<open>FFABS\<close> of libavutil/common.h.\<close>

definition FFABS :: "int \<Rightarrow> int" where
  "FFABS a = (if a \<ge> 0 then a else - a)"

text \<open>The conversion of a \<^verbatim>\<open>double\<close> to \<^verbatim>\<open>int\<close>: truncation towards zero.\<close>

definition c_trunc :: "real \<Rightarrow> int" where
  "c_trunc x = (if 0 \<le> x then \<lfloor>x\<rfloor> else \<lceil>x\<rceil>)"

subsection \<open>rcp and DIVS\<close>

definition rcp :: "adm_consts \<Rightarrow> real \<Rightarrow> real" where
  "rcp C x = (let xi = mm_rcp_ss C x in xi + xi * (1 - x * xi))"

definition DIVS :: "adm_consts \<Rightarrow> real \<Rightarrow> real \<Rightarrow> real" where
  "DIVS C n d = n * rcp C d"

subsection \<open>adm\_decouple\<close>

text \<open>The value of \<^verbatim>\<open>angle_flag\<close> in the loop body of \<^verbatim>\<open>adm_decouple\<close>.\<close>

definition angle_flag :: "real \<Rightarrow> real \<Rightarrow> real \<Rightarrow> real \<Rightarrow> bool" where
  "angle_flag oh ov th tv =
     (let cos_1deg_sq = cos (1 * pi / 180) * cos (1 * pi / 180);
          ot_dp = oh * th + ov * tv;
          o_mag_sq = oh * oh + ov * ov;
          t_mag_sq = th * th + tv * tv
      in ot_dp \<ge> 0 \<and> ot_dp * ot_dp \<ge> cos_1deg_sq * o_mag_sq * t_mag_sq)"

text \<open>The gain of one orientation after the clip: \<^verbatim>\<open>k = DIVS(t, o + eps)\<close>, then
  \<^verbatim>\<open>k < 0.0 ? 0.0 : (k > 1.0 ? 1.0 : k)\<close>.\<close>

definition decouple_gain :: "adm_consts \<Rightarrow> real \<Rightarrow> real \<Rightarrow> real" where
  "decouple_gain C oc tc =
     (let eps = 1 / 10 ^ 30;
          k = DIVS C tc (oc + eps)
      in if k < 0 then 0 else if k > 1 then 1 else k)"

text \<open>The values \<^verbatim>\<open>tmph, tmpv, tmpd\<close> at the end of the loop body, from the six
  coefficients read at the pixel.\<close>

definition decouple_px ::
  "adm_consts \<Rightarrow> real \<Rightarrow> real \<Rightarrow> real \<Rightarrow> real \<Rightarrow> real \<Rightarrow> real \<Rightarrow> real \<times> real \<times> real" where
  "decouple_px C oh ov od th tv td =
     (let kh = decouple_gain C oh th;
          kv = decouple_gain C ov tv;
          kd = decouple_gain C od td;
          tmph = kh * oh;
          tmpv = kv * ov;
          tmpd = kd * od
      in if angle_flag oh ov th tv then (th, tv, td) else (tmph, tmpv, tmpd))"

text \<open>The body of the inner loop: the pixel \<open>(i, j)\<close> of the six output planes.\<close>

definition adm_decouple_px ::
  "adm_consts \<Rightarrow> adm_dwt_band_t \<Rightarrow> adm_dwt_band_t \<Rightarrow> int \<Rightarrow> int \<Rightarrow>
   adm_dwt_band_t \<times> adm_dwt_band_t \<Rightarrow> adm_dwt_band_t \<times> adm_dwt_band_t" where
  "adm_decouple_px C ref main i j ra =
     (let r = fst ra; a = snd ra;
          oh = band_h ref i j; ov = band_v ref i j; od = band_d ref i j;
          th = band_h main i j; tv = band_v main i j; td = band_d main i j;
          tmp = decouple_px C oh ov od th tv td;
          tmph = fst tmp; tmpv = fst (snd tmp); tmpd = snd (snd tmp)
      in (r\<lparr>band_h := put (band_h r) i j tmph,
             band_v := put (band_v r) i j tmpv,
             band_d := put (band_d r) i j tmpd\<rparr>,
          a\<lparr>band_h := put (band_h a) i j (th - tmph),
             band_v := put (band_v a) i j (tv - tmpv),
             band_d := put (band_d a) i j (td - tmpd)\<rparr>))"

definition adm_decouple ::
  "adm_consts \<Rightarrow> adm_dwt_band_t \<Rightarrow> adm_dwt_band_t \<Rightarrow> adm_dwt_band_t \<Rightarrow> adm_dwt_band_t \<Rightarrow>
   int \<Rightarrow> int \<Rightarrow> adm_dwt_band_t \<times> adm_dwt_band_t" where
  "adm_decouple C ref main r a w h =
     for_loop 0 h (\<lambda>i. for_loop 0 w (\<lambda>j. adm_decouple_px C ref main i j)) (r, a)"


subsection \<open>dwt\_quant\_step and adm\_csf\<close>

definition dwt_quant_step :: "adm_consts \<Rightarrow> dwt_model_params \<Rightarrow> int \<Rightarrow> int \<Rightarrow> real" where
  "dwt_quant_step C params lambda theta =
     (let r = VIEW_DIST C * REF_DISPLAY_HEIGHT C * pi / 180;
          temp = log 10 (2 powr real_of_int (lambda + 1) * params_f0 params *
                         (params_g params ! nat theta) / r);
          Q = 2 * params_a params * 10 powr (params_k params * temp * temp) /
              (dwt_7_9_basis_function_amplitudes C ! nat lambda ! nat theta)
      in Q)"

text \<open>The pointer arrays \<^verbatim>\<open>{ src->band_h, src->band_v, src->band_d }\<close>, read and written
  at an index \<open>theta\<close> (the loops keep \<open>theta\<close> in 0, 1, 2).\<close>

definition angles :: "adm_dwt_band_t \<Rightarrow> int \<Rightarrow> plane" where
  "angles b theta = (if theta = 0 then band_h b else if theta = 1 then band_v b else band_d b)"

definition angles_put :: "adm_dwt_band_t \<Rightarrow> int \<Rightarrow> plane \<Rightarrow> adm_dwt_band_t" where
  "angles_put b theta p =
     (if theta = 0 then b\<lparr>band_h := p\<rparr> else if theta = 1 then b\<lparr>band_v := p\<rparr>
      else b\<lparr>band_d := p\<rparr>)"

text \<open>The array \<^verbatim>\<open>rfactor\<close> of \<^verbatim>\<open>adm_csf\<close>.\<close>

definition adm_csf_rfactor :: "adm_consts \<Rightarrow> int \<Rightarrow> real list" where
  "adm_csf_rfactor C scale =
     (let factor1 = dwt_quant_step C (dwt_7_9_YCbCr_threshold C ! 0) scale 1;
          factor2 = dwt_quant_step C (dwt_7_9_YCbCr_threshold C ! 0) scale 2
      in [1 / factor1, 1 / factor1, 1 / factor2])"

definition adm_csf ::
  "adm_consts \<Rightarrow> adm_dwt_band_t \<Rightarrow> adm_dwt_band_t \<Rightarrow> int \<Rightarrow> int \<Rightarrow> int \<Rightarrow> int \<Rightarrow> adm_dwt_band_t" where
  "adm_csf C src dst orig_h scale w h =
     (let rfactor = adm_csf_rfactor C scale
      in for_loop 0 3 (\<lambda>theta.
           for_loop 0 h (\<lambda>i. for_loop 0 w (\<lambda>j dst.
             angles_put dst theta
               (put (angles dst theta) i j (rfactor ! nat theta * angles src theta i j))))) dst)"

subsection \<open>adm\_cm\_thresh and adm\_cm\<close>

text \<open>The value of \<^verbatim>\<open>sum\<close> after the two filter loops of \<^verbatim>\<open>adm_cm_thresh\<close>, for the
  plane \<^verbatim>\<open>src_ptr\<close> and the pixel \<open>(i, j)\<close>.\<close>

definition adm_cm_thresh_sum :: "plane \<Rightarrow> int \<Rightarrow> int \<Rightarrow> int \<Rightarrow> int \<Rightarrow> real" where
  "adm_cm_thresh_sum src_ptr w h i j =
     for_loop 0 3 (\<lambda>filt_i. for_loop 0 3 (\<lambda>filt_j sum.
       let filt_coeff = (if filt_i = 1 \<and> filt_j = 1 then 1 / 15 else 1 / 30);
           src_i = i - 1 + filt_i;
           src_j = j - 1 + filt_j;
           src_i = FFABS src_i;
           src_i = (if src_i \<ge> h then 2 * h - src_i - 1 else src_i);
           src_j = FFABS src_j;
           src_j = (if src_j \<ge> w then 2 * w - src_j - 1 else src_j);
           img_coeff = \<bar>src_ptr src_i src_j\<bar>
       in sum + filt_coeff * img_coeff)) 0"

definition adm_cm_thresh :: "adm_dwt_band_t \<Rightarrow> plane \<Rightarrow> int \<Rightarrow> int \<Rightarrow> plane" where
  "adm_cm_thresh src dst w h =
     for_loop 0 h (\<lambda>i dst.
       let dst = for_loop 0 w (\<lambda>j dst. put dst i j 0) dst
       in for_loop 0 3 (\<lambda>theta dst.
            let src_ptr = angles src theta
            in for_loop 0 w (\<lambda>j dst.
                 put dst i j (dst i j + adm_cm_thresh_sum src_ptr w h i j)) dst) dst) dst"

text \<open>\<^verbatim>\<open>x = fabsf(x) - thr; x = x < 0.0 ? 0.0 : x\<close>\<close>

definition adm_cm_px :: "real \<Rightarrow> real \<Rightarrow> real" where
  "adm_cm_px x thr = (let x = \<bar>x\<bar> - thr in if x < 0 then 0 else x)"

definition adm_cm ::
  "adm_dwt_band_t \<Rightarrow> adm_dwt_band_t \<Rightarrow> plane \<Rightarrow> int \<Rightarrow> int \<Rightarrow> adm_dwt_band_t" where
  "adm_cm src dst thresh w h =
     for_loop 0 h (\<lambda>i. for_loop 0 w (\<lambda>j dst.
       let xh = band_h src i j; xv = band_v src i j; xd = band_d src i j;
           thr = thresh i j;
           xh = adm_cm_px xh thr; xv = adm_cm_px xv thr; xd = adm_cm_px xd thr
       in dst\<lparr>band_h := put (band_h dst) i j xh,
               band_v := put (band_v dst) i j xv,
               band_d := put (band_d dst) i j xd\<rparr>)) dst"

subsection \<open>adm\_sum\_cube\<close>

definition get_cube :: "real \<Rightarrow> real" where
  "get_cube val = val * val * val"

definition powf :: "real \<Rightarrow> real \<Rightarrow> real" where
  "powf x y = x powr y"

definition adm_sum_cube :: "plane \<Rightarrow> int \<Rightarrow> int \<Rightarrow> real \<Rightarrow> real" where
  "adm_sum_cube x w h border_factor =
     (let left = c_trunc (real_of_int w * border_factor - 0.5);
          top = c_trunc (real_of_int h * border_factor - 0.5);
          right = w - left;
          bottom = h - top;
          sum = for_loop top bottom (\<lambda>i. for_loop left right (\<lambda>j sum.
                  let val = \<bar>x i j\<bar> in sum + get_cube val)) 0
      in powf sum (1 / 3) +
         powf (real_of_int ((bottom - top) * (right - left)) / 32) (1 / 3))"

subsection \<open>adm\_dwt2\<close>

text \<open>The pair \<^verbatim>\<open>(sum_lo, sum_hi)\<close> after the filter loop of the vertical pass, for the
  output row \<open>i\<close> and the column \<open>j\<close>.\<close>

definition adm_dwt2_vertical :: "adm_consts \<Rightarrow> plane \<Rightarrow> int \<Rightarrow> int \<Rightarrow> int \<Rightarrow> real \<times> real" where
  "adm_dwt2_vertical C src h i j =
     (let filter_lo = dwt2_db2_coeffs_lo C;
          filter_hi = dwt2_db2_coeffs_hi C;
          filt_w = int (length (dwt2_db2_coeffs_lo C))
      in for_loop 0 filt_w (\<lambda>filt_i acc.
           let filt_coeff_lo = filter_lo ! nat filt_i;
               filt_coeff_hi = filter_hi ! nat filt_i;
               src_i = 2 * i - 1 + filt_i;
               src_i = FFABS src_i;
               src_i = (if src_i \<ge> h then 2 * h - src_i - 1 else src_i);
               img_coeff = src src_i j
           in (fst acc + filt_coeff_lo * img_coeff, snd acc + filt_coeff_hi * img_coeff))
         (0, 0))"

text \<open>The pair \<^verbatim>\<open>(sum_lo, sum_hi)\<close> after the filter loop of a horizontal pass over the
  row buffer \<open>temp\<close>, for the output column \<open>j\<close>.\<close>

definition adm_dwt2_horizontal :: "adm_consts \<Rightarrow> row \<Rightarrow> int \<Rightarrow> int \<Rightarrow> real \<times> real" where
  "adm_dwt2_horizontal C temp w j =
     (let filter_lo = dwt2_db2_coeffs_lo C;
          filter_hi = dwt2_db2_coeffs_hi C;
          filt_w = int (length (dwt2_db2_coeffs_lo C))
      in for_loop 0 filt_w (\<lambda>filt_j acc.
           let filt_coeff_lo = filter_lo ! nat filt_j;
               filt_coeff_hi = filter_hi ! nat filt_j;
               src_j = 2 * j - 1 + filt_j;
               src_j = FFABS src_j;
               src_j = (if src_j \<ge> w then 2 * w - src_j - 1 else src_j);
               img_coeff = temp src_j
           in (fst acc + filt_coeff_lo * img_coeff, snd acc + filt_coeff_hi * img_coeff))
         (0, 0))"

text \<open>The state of the row loop: the output band and the two row buffers.\<close>

record dwt2_state =
  dst_band :: adm_dwt_band_t
  temp_lo_buf :: row
  temp_hi_buf :: row

text \<open>One iteration of the row loop: the vertical pass into \<^verbatim>\<open>temp_lo\<close> and
  \<^verbatim>\<open>temp_hi\<close>, the horizontal pass over \<^verbatim>\<open>temp_lo\<close>, the horizontal pass over
  \<^verbatim>\<open>temp_hi\<close>.\<close>

definition adm_dwt2_row :: "adm_consts \<Rightarrow> plane \<Rightarrow> int \<Rightarrow> int \<Rightarrow> int \<Rightarrow> dwt2_state \<Rightarrow> dwt2_state" where
  "adm_dwt2_row C src w h i s =
     (let temps = for_loop 0 w (\<lambda>j temps.
                    let lo_hi = adm_dwt2_vertical C src h i j
                    in ((fst temps)(j := fst lo_hi), (snd temps)(j := snd lo_hi)))
                  (temp_lo_buf s, temp_hi_buf s);
          temp_lo = fst temps;
          temp_hi = snd temps;
          dst = for_loop 0 ((w + 1) div 2) (\<lambda>j dst.
                  let lo_hi = adm_dwt2_horizontal C temp_lo w j
                  in dst\<lparr>band_a := put (band_a dst) i j (fst lo_hi),
                          band_v := put (band_v dst) i j (snd lo_hi)\<rparr>) (dst_band s);
          dst = for_loop 0 ((w + 1) div 2) (\<lambda>j dst.
                  let lo_hi = adm_dwt2_horizontal C temp_hi w j
                  in dst\<lparr>band_h := put (band_h dst) i j (fst lo_hi),
                          band_d := put (band_d dst) i j (snd lo_hi)\<rparr>) dst
      in \<lparr>dst_band = dst, temp_lo_buf = temp_lo, temp_hi_buf = temp_hi\<rparr>)"

definition adm_dwt2 ::
  "adm_consts \<Rightarrow> plane \<Rightarrow> adm_dwt_band_t \<Rightarrow> int \<Rightarrow> int \<Rightarrow> row \<Rightarrow> row \<Rightarrow> dwt2_state" where
  "adm_dwt2 C src dst w h temp_lo temp_hi =
     for_loop 0 ((h + 1) div 2) (adm_dwt2_row C src w h)
       \<lparr>dst_band = dst, temp_lo_buf = temp_lo, temp_hi_buf = temp_hi\<rparr>"

subsection \<open>adm\_buffer\_copy\<close>

text \<open>\<open>h\<close> rows of \<^verbatim>\<open>linewidth\<close> bytes each, that is of \<open>w\<close> floats for the
  \<^verbatim>\<open>linewidth = w * sizeof(float)\<close> of both calls.\<close>

definition adm_buffer_copy :: "plane \<Rightarrow> plane \<Rightarrow> int \<Rightarrow> int \<Rightarrow> plane" where
  "adm_buffer_copy src dst w h =
     for_loop 0 h (\<lambda>i dst. dst(i := (\<lambda>j. if 0 \<le> j \<and> j < w then src i j else dst i j))) dst"

subsection \<open>compute\_adm2\<close>

text \<open>
  The variables of the scale loop. The buffers that \<^verbatim>\<open>compute_adm2\<close> carves out of
  \<^verbatim>\<open>data_buf\<close> keep their contents from one scale to the next (and from one frame to the
  next), so they are part of the state, as are \<^verbatim>\<open>temp_lo\<close>, \<^verbatim>\<open>temp_hi\<close> and the caller's
  array \<^verbatim>\<open>scores\<close>.
\<close>

record adm_state =
  ref_scale :: plane
  main_scale :: plane
  ref_dwt2 :: adm_dwt_band_t
  main_dwt2 :: adm_dwt_band_t
  decouple_r :: adm_dwt_band_t
  decouple_a :: adm_dwt_band_t
  csf_o :: adm_dwt_band_t
  csf_r :: adm_dwt_band_t
  csf_a :: adm_dwt_band_t
  mta :: plane
  cm_r :: adm_dwt_band_t
  temp_lo :: row
  temp_hi :: row
  curr_ref_scale :: plane
  curr_main_scale :: plane
  cur_w :: int
  cur_h :: int
  num :: real
  den :: real
  scores :: "int \<Rightarrow> real"

text \<open>The body of the scale loop.\<close>

definition compute_adm2_scale :: "adm_consts \<Rightarrow> int \<Rightarrow> int \<Rightarrow> adm_state \<Rightarrow> adm_state" where
  "compute_adm2_scale C orig_h scale st =
     (let d1 = adm_dwt2 C (curr_ref_scale st) (ref_dwt2 st) (cur_w st) (cur_h st)
                 (temp_lo st) (temp_hi st);
          d2 = adm_dwt2 C (curr_main_scale st) (main_dwt2 st) (cur_w st) (cur_h st)
                 (temp_lo_buf d1) (temp_hi_buf d1);
          w = (cur_w st + 1) div 2;
          h = (cur_h st + 1) div 2;
          ra = adm_decouple C (dst_band d1) (dst_band d2) (decouple_r st) (decouple_a st) w h;
          o_csf = adm_csf C (dst_band d1) (csf_o st) orig_h scale w h;
          r_csf = adm_csf C (fst ra) (csf_r st) orig_h scale w h;
          a_csf = adm_csf C (snd ra) (csf_a st) orig_h scale w h;
          thr = adm_cm_thresh a_csf (mta st) w h;
          r_cm = adm_cm r_csf (cm_r st) thr w h;
          num_scale = 0 + adm_sum_cube (band_h r_cm) w h (ADM_BORDER_FACTOR C)
                        + adm_sum_cube (band_v r_cm) w h (ADM_BORDER_FACTOR C)
                        + adm_sum_cube (band_d r_cm) w h (ADM_BORDER_FACTOR C);
          den_scale = 0 + adm_sum_cube (band_h o_csf) w h (ADM_BORDER_FACTOR C)
                        + adm_sum_cube (band_v o_csf) w h (ADM_BORDER_FACTOR C)
                        + adm_sum_cube (band_d o_csf) w h (ADM_BORDER_FACTOR C);
          rs = adm_buffer_copy (band_a (dst_band d1)) (ref_scale st) w h;
          ms = adm_buffer_copy (band_a (dst_band d2)) (main_scale st) w h
      in \<lparr>ref_scale = rs, main_scale = ms,
          ref_dwt2 = dst_band d1, main_dwt2 = dst_band d2,
          decouple_r = fst ra, decouple_a = snd ra,
          csf_o = o_csf, csf_r = r_csf, csf_a = a_csf,
          mta = thr, cm_r = r_cm,
          temp_lo = temp_lo_buf d2, temp_hi = temp_hi_buf d2,
          curr_ref_scale = rs, curr_main_scale = ms,
          cur_w = w, cur_h = h,
          num = num st + num_scale, den = den st + den_scale,
          scores = (scores st)(2 * scale + 0 := num_scale, 2 * scale + 1 := den_scale)\<rparr>)"

text \<open>The outputs \<^verbatim>\<open>*score\<close>, \<^verbatim>\<open>*score_num\<close>, \<^verbatim>\<open>*score_den\<close> and \<^verbatim>\<open>scores[]\<close>.\<close>

record adm_result =
  score :: real
  score_num :: real
  score_den :: real
  scores_out :: "int \<Rightarrow> real"

text \<open>The state in which the scale loop starts: the scratch buffers and the array
  \<^verbatim>\<open>scores\<close> as the caller passes them (\<open>bufs\<close>), the two input planes, \<open>num = den = 0\<close>.\<close>

definition compute_adm2_init :: "plane \<Rightarrow> plane \<Rightarrow> int \<Rightarrow> int \<Rightarrow> adm_state \<Rightarrow> adm_state" where
  "compute_adm2_init ref main w h bufs =
     bufs\<lparr>curr_ref_scale := ref, curr_main_scale := main, cur_w := w, cur_h := h,
          num := 0, den := 0\<rparr>"

definition compute_adm2 ::
  "adm_consts \<Rightarrow> plane \<Rightarrow> plane \<Rightarrow> int \<Rightarrow> int \<Rightarrow> adm_state \<Rightarrow> adm_result" where
  "compute_adm2 C ref main w h bufs =
     (let numden_limit = 1 / 100 * real_of_int (w * h) / (1920 * 1080);
          orig_h = h;
          st = for_loop 0 4 (compute_adm2_scale C orig_h) (compute_adm2_init ref main w h bufs);
          n = num st;
          d = den st;
          n = (if n < numden_limit then 0 else n);
          d = (if d < numden_limit then 0 else d)
      in \<lparr>score = (if d = 0 then 1 else n / d), score_num = n, score_den = d,
          scores_out = scores st\<rparr>)"

subsection \<open>offset\_8bit and offset\_10bit\<close>

text \<open>The two instances of the macro \<^verbatim>\<open>offset_fn\<close>: \<^verbatim>\<open>uint8_t\<close> samples and \<^verbatim>\<open>uint16_t\<close>
  samples. The cast \<^verbatim>\<open>(float) ref_ptr[j]\<close> of an unsigned sample of at most 16 bits is
  its value.\<close>

definition offset_8bit ::
  "(int \<Rightarrow> int \<Rightarrow> 8 word) \<Rightarrow> (int \<Rightarrow> int \<Rightarrow> 8 word) \<Rightarrow> plane \<times> plane \<Rightarrow> int \<Rightarrow> int \<Rightarrow> plane \<times> plane" where
  "offset_8bit ref main data w h =
     for_loop 0 h (\<lambda>i. for_loop 0 w (\<lambda>j data.
       (put (fst data) i j (real (unat (ref i j))),
        put (snd data) i j (real (unat (main i j)))))) data"

definition offset_10bit ::
  "(int \<Rightarrow> int \<Rightarrow> 16 word) \<Rightarrow> (int \<Rightarrow> int \<Rightarrow> 16 word) \<Rightarrow> plane \<times> plane \<Rightarrow> int \<Rightarrow> int \<Rightarrow> plane \<times> plane" where
  "offset_10bit ref main data w h =
     for_loop 0 h (\<lambda>i. for_loop 0 w (\<lambda>j data.
       (put (fst data) i j (real (unat (ref i j))),
        put (snd data) i j (real (unat (main i j)))))) data"

section \<open>Closed forms\<close>

text \<open>
  What the properties below are stated with: the pixels of a plane, views of the bands
  at a pixel, and the operations of the specification written as sums, next to which
  the loops of the code are put.
\<close>

text \<open>The pixels of a \<open>w \<times> h\<close> plane, and two buffers that hold the same \<open>w \<times> h\<close>
  plane.\<close>

definition inside :: "int \<Rightarrow> int \<Rightarrow> int \<Rightarrow> int \<Rightarrow> bool" where
  "inside w h i j \<longleftrightarrow> 0 \<le> i \<and> i < h \<and> 0 \<le> j \<and> j < w"

definition agree :: "int \<Rightarrow> int \<Rightarrow> plane \<Rightarrow> plane \<Rightarrow> bool" where
  "agree w h p q \<longleftrightarrow> (\<forall>i j. inside w h i j \<longrightarrow> p i j = q i j)"

text \<open>The three detail coefficients of a band at a pixel.\<close>

definition hvd :: "adm_dwt_band_t \<Rightarrow> int \<Rightarrow> int \<Rightarrow> real \<times> real \<times> real" where
  "hvd b i j = (band_h b i j, band_v b i j, band_d b i j)"

text \<open>The four coefficients of a band at a pixel.\<close>

definition avhd :: "adm_dwt_band_t \<Rightarrow> int \<Rightarrow> int \<Rightarrow> real \<times> real \<times> real \<times> real" where
  "avhd b i j = (band_a b i j, band_v b i j, band_h b i j, band_d b i j)"

text \<open>The six coefficients that the decoupler holds at a pixel.\<close>

definition decouple_view ::
  "adm_dwt_band_t \<times> adm_dwt_band_t \<Rightarrow> int \<Rightarrow> int \<Rightarrow> (real \<times> real \<times> real) \<times> (real \<times> real \<times> real)" where
  "decouple_view ra i j =
     ((band_h (fst ra) i j, band_v (fst ra) i j, band_d (fst ra) i j),
      (band_h (snd ra) i j, band_v (snd ra) i j, band_d (snd ra) i j))"

text \<open>
  The boundary rule of section 4.1 of the specification, in its words: \<open>idx = |idx|\<close>,
  then \<open>idx = 2 dim - idx - 1\<close> if still out of range.
\<close>

definition mirror :: "int \<Rightarrow> int \<Rightarrow> int" where
  "mirror n idx = (let idx = \<bar>idx\<bar> in if 0 \<le> idx \<and> idx < n then idx else 2 * n - idx - 1)"

text \<open>
  One level of the transform of section 4.1, in closed form. \<open>dwt2_taps\<close> is one
  output of a filter pass: the taps against the samples \<open>2 c - 1 + k\<close> of a signal \<open>f\<close> of
  length \<open>n\<close>, every index going through the boundary rule \<open>mirror\<close>. \<open>dwt2_temp\<close> is the
  row buffer after the vertical pass for the output row \<open>i\<close> (\<open>w\<close> entries written, the rest
  as it was). \<open>dwt2_spec\<close> is the pixel \<open>(i, j)\<close> of the four bands: the low-pass and the
  high-pass filter along the vertically low-passed row give A and V, along the vertically
  high-passed row H and D.
\<close>

definition dwt2_taps :: "int \<Rightarrow> real list \<Rightarrow> (int \<Rightarrow> real) \<Rightarrow> int \<Rightarrow> int \<Rightarrow> real" where
  "dwt2_taps len filt f n c = (\<Sum>k = 0..<len. filt ! nat k * f (mirror n (2 * c - 1 + k)))"

definition dwt2_temp :: "int \<Rightarrow> real list \<Rightarrow> plane \<Rightarrow> row \<Rightarrow> int \<Rightarrow> int \<Rightarrow> int \<Rightarrow> row" where
  "dwt2_temp len filt src temp w h i =
     (\<lambda>j. if 0 \<le> j \<and> j < w then dwt2_taps len filt (\<lambda>r. src r j) h i else temp j)"

definition dwt2_spec ::
  "adm_consts \<Rightarrow> plane \<Rightarrow> row \<Rightarrow> row \<Rightarrow> int \<Rightarrow> int \<Rightarrow> int \<Rightarrow> int \<Rightarrow> real \<times> real \<times> real \<times> real" where
  "dwt2_spec C src tlo thi w h i j =
     (let lo = dwt2_db2_coeffs_lo C; hi = dwt2_db2_coeffs_hi C; len = int (length lo);
          low_rows = dwt2_temp len lo src tlo w h i;
          high_rows = dwt2_temp len hi src thi w h i
      in (dwt2_taps len lo low_rows w j, dwt2_taps len hi low_rows w j,
          dwt2_taps len lo high_rows w j, dwt2_taps len hi high_rows w j))"

text \<open>
  The contrast-masking threshold of section 4.4, in its words: the 3 \<times> 3 filter with
  the weight 1/15 at the centre and 1/30 elsewhere, on the absolute values of a plane,
  with the boundary rule \<open>mirror\<close>; and its sum over the three orientations.
\<close>

definition cm_filter3x3 :: "plane \<Rightarrow> int \<Rightarrow> int \<Rightarrow> int \<Rightarrow> int \<Rightarrow> real" where
  "cm_filter3x3 p w h i j =
     (\<Sum>di = -1..1. \<Sum>dj = -1..1.
        (if di = 0 \<and> dj = 0 then 1 / 15 else 1 / 30) *
        \<bar>p (mirror h (i + di)) (mirror w (j + dj))\<bar>)"

definition cm_thresh_spec :: "adm_dwt_band_t \<Rightarrow> int \<Rightarrow> int \<Rightarrow> int \<Rightarrow> int \<Rightarrow> real" where
  "cm_thresh_spec src w h i j =
     cm_filter3x3 (band_h src) w h i j + cm_filter3x3 (band_v src) w h i j +
     cm_filter3x3 (band_d src) w h i j"

text \<open>
  The pooling of section 4.5 of the specification, in its words: the sum of the cubed
  absolute values over the rows \<open>[top, bottom)\<close> and the columns \<open>[left, right)\<close>, and
  the additive term from the height and the width of that region.
\<close>

definition pool_sum :: "plane \<Rightarrow> int \<Rightarrow> int \<Rightarrow> real \<Rightarrow> real" where
  "pool_sum x w h b =
     (let left = c_trunc (real_of_int w * b - 1 / 2);
          top = c_trunc (real_of_int h * b - 1 / 2);
          right = w - left;
          bottom = h - top
      in \<Sum>i = top..<bottom. \<Sum>j = left..<right. \<bar>x i j\<bar> ^ 3)"

definition pool_stabilizer :: "int \<Rightarrow> int \<Rightarrow> real \<Rightarrow> real" where
  "pool_stabilizer w h b =
     (let left = c_trunc (real_of_int w * b - 1 / 2);
          top = c_trunc (real_of_int h * b - 1 / 2);
          right = w - left;
          bottom = h - top
      in (real_of_int (bottom - top) * real_of_int (right - left) / 32) powr (1 / 3))"

text \<open>The variables of \<^verbatim>\<open>compute_adm2\<close> after \<open>k\<close> iterations of its scale loop.\<close>

definition scale_state :: "adm_consts \<Rightarrow> plane \<Rightarrow> plane \<Rightarrow> int \<Rightarrow> int \<Rightarrow> adm_state \<Rightarrow> int \<Rightarrow> adm_state" where
  "scale_state C ref main w h bufs k =
     for_loop 0 k (compute_adm2_scale C h) (compute_adm2_init ref main w h bufs)"

text \<open>The least width and height of the working planes before the scale \<open>n\<close>, for a
  frame of at least 9 \<times> 9: with them every index that \<^verbatim>\<open>adm_dwt2\<close> reads, after its
  reflection, is inside the plane.\<close>

definition min_dim :: "nat \<Rightarrow> int" where
  "min_dim n = (if n = 0 then 9 else if n = 1 then 5 else if n = 2 then 3 else if n = 3 then 2 else 1)"

section \<open>Concrete inputs\<close>

text \<open>
  An instance of the parameters, for evaluating the functions on concrete inputs: the
  four-tap Daubechies analysis filters, a viewing distance of three picture heights of
  a 1080-line display, a border of one tenth, the threshold parameters and basis
  amplitudes of Watson et al. for the 7/9 wavelet, and the exact reciprocal in the place
  of the hardware estimate. The theorems below are about every instance; this one only
  shows that their hypotheses can be met.
\<close>

definition sample_consts :: adm_consts where
  "sample_consts =
     \<lparr>VIEW_DIST = 3, REF_DISPLAY_HEIGHT = 1080, ADM_BORDER_FACTOR = 1 / 10,
      dwt2_db2_coeffs_lo =
        [0.482962913144690, 0.836516303737469, 0.224143868041857, - 0.129409522550921],
      dwt2_db2_coeffs_hi =
        [- 0.129409522550921, - 0.224143868041857, 0.836516303737469, - 0.482962913144690],
      dwt_7_9_YCbCr_threshold =
        [\<lparr>params_a = 0.495, params_k = 0.466, params_f0 = 0.401,
          params_g = [1.501, 1.0, 0.534, 1.0]\<rparr>,
         \<lparr>params_a = 1.633, params_k = 0.353, params_f0 = 0.209,
          params_g = [1.520, 1.0, 0.502, 1.0]\<rparr>,
         \<lparr>params_a = 0.944, params_k = 0.521, params_f0 = 0.404,
          params_g = [1.868, 1.0, 0.516, 1.0]\<rparr>],
      dwt_7_9_basis_function_amplitudes =
        [[0.62171, 0.67234, 0.72709, 0.67234],
         [0.34537, 0.41317, 0.49428, 0.41317],
         [0.18004, 0.22727, 0.28688, 0.22727],
         [0.091401, 0.11792, 0.15214, 0.11792],
         [0.045943, 0.059758, 0.077727, 0.059758],
         [0.023013, 0.030018, 0.039108, 0.030018]],
      mm_rcp_ss = (\<lambda>x. 1 / x)\<rparr>"

text \<open>Sample planes and bands: a plane of zeros, a ramp, and a plane whose first row
  alone is not zero.\<close>

definition zero_plane :: plane where
  "zero_plane = (\<lambda>i j. 0)"

definition ramp_plane :: plane where
  "ramp_plane = (\<lambda>i j. real_of_int (3 * i + 5 * j))"

definition top_row_plane :: plane where
  "top_row_plane = (\<lambda>i j. if i = 0 then 1 else 0)"

definition zero_band :: adm_dwt_band_t where
  "zero_band = \<lparr>band_a = zero_plane, band_v = zero_plane, band_h = zero_plane,
                band_d = zero_plane\<rparr>"

definition ramp_band :: adm_dwt_band_t where
  "ramp_band = \<lparr>band_a = ramp_plane, band_v = ramp_plane, band_h = top_row_plane,
                band_d = ramp_plane\<rparr>"

definition top_row_band :: adm_dwt_band_t where
  "top_row_band = \<lparr>band_a = top_row_plane, band_v = ramp_plane, band_h = ramp_plane,
                   band_d = top_row_plane\<rparr>"

text \<open>Scratch buffers that hold zeros, and a copy of the ramp that differs from it
  outside the 9 \<times> 9 frame.\<close>

definition zero_state :: adm_state where
  "zero_state =
     \<lparr>ref_scale = zero_plane, main_scale = zero_plane,
      ref_dwt2 = zero_band, main_dwt2 = zero_band,
      decouple_r = zero_band, decouple_a = zero_band,
      csf_o = zero_band, csf_r = zero_band, csf_a = zero_band,
      mta = zero_plane, cm_r = zero_band,
      temp_lo = (\<lambda>j. 0), temp_hi = (\<lambda>j. 0),
      curr_ref_scale = zero_plane, curr_main_scale = zero_plane,
      cur_w = 0, cur_h = 0, num = 0, den = 0, scores = (\<lambda>k. 0)\<rparr>"

definition ramp_padded_plane :: plane where
  "ramp_padded_plane = (\<lambda>i j. if inside 9 9 i j then ramp_plane i j else 7)"

section \<open>Properties\<close>

subsection \<open>Loops\<close>

lemma for_loop_done: "n \<le> i \<Longrightarrow> for_loop i n body s = s"
  by (subst for_loop.simps) simp

lemma for_loop_step: "i < n \<Longrightarrow> for_loop i n body s = for_loop (i + 1) n body (body i s)"
  by (subst for_loop.simps) simp

text \<open>The invariant rule of the loop.\<close>

lemma for_loop_rule:
  assumes "I i s" and "\<And>k t. i \<le> k \<Longrightarrow> k < n \<Longrightarrow> I k t \<Longrightarrow> I (k + 1) (body k t)"
    and "i \<le> n"
  shows "I n (for_loop i n body s)"
  using assms
proof (induction "nat (n - i)" arbitrary: i s)
  case 0
  then have "i = n" by simp
  with 0 show ?case by (simp add: for_loop_done)
next
  case (Suc m)
  then have lt: "i < n" by linarith
  have "I n (for_loop (i + 1) n body (body i s))"
  proof (rule Suc.hyps(1))
    show "m = nat (n - (i + 1))" using Suc.hyps(2) by linarith
    show "I (i + 1) (body i s)" using Suc.prems(1,2) lt by simp
    show "\<And>k t. i + 1 \<le> k \<Longrightarrow> k < n \<Longrightarrow> I k t \<Longrightarrow> I (k + 1) (body k t)"
      using Suc.prems(2) by simp
    show "i + 1 \<le> n" using lt by simp
  qed
  then show ?case by (simp add: for_loop_step lt)
qed

text \<open>What no iteration changes, the loop does not change.\<close>

lemma for_loop_frame:
  assumes "\<And>k t. K (body k t) = K t"
  shows "K (for_loop i n body s) = K s"
proof (cases "i \<le> n")
  case True
  show ?thesis
    by (rule for_loop_rule [where I = "\<lambda>k t. K t = K s"]) (simp_all add: assms True)
next
  case False
  then show ?thesis by (simp add: for_loop_done)
qed

text \<open>A loop whose iteration \<open>k\<close> rewrites the entry \<open>k\<close> of a view \<open>g\<close> of the state, from
  the old entry alone.\<close>

lemma for_loop_point:
  assumes inv: "Inv s" "\<And>k t. Inv t \<Longrightarrow> Inv (body k t)"
    and upd: "\<And>k t x. Inv t \<Longrightarrow> g (body k t) x = (if x = k then F k (g t k) else g t x)"
  shows "g (for_loop i n body s) x = (if i \<le> x \<and> x < n then F x (g s x) else g s x)"
proof (cases "i \<le> n")
  case True
  have "Inv (for_loop i n body s) \<and>
        (\<forall>x. g (for_loop i n body s) x = (if i \<le> x \<and> x < n then F x (g s x) else g s x))"
    by (rule for_loop_rule
          [where I = "\<lambda>k t. Inv t \<and> (\<forall>x. g t x = (if i \<le> x \<and> x < k then F x (g s x) else g s x))"])
       (auto simp: inv upd True)
  then show ?thesis by simp
next
  case False
  then show ?thesis by (auto simp: for_loop_done)
qed

text \<open>The two nested loops over the pixels of a \<open>w \<times> h\<close> plane.\<close>

lemma for_pixels_point:
  assumes upd: "\<And>i j t i' j'.
      g (body i j t) i' j' = (if i' = i \<and> j' = j then F i j (g t i j) else g t i' j')"
  shows "g (for_loop 0 h (\<lambda>i. for_loop 0 w (body i)) s) i' j' =
         (if 0 \<le> i' \<and> i' < h \<and> 0 \<le> j' \<and> j' < w then F i' j' (g s i' j') else g s i' j')"
proof -
  have inner: "g (for_loop 0 w (body i) t) x =
               (if x = i then (\<lambda>j. if 0 \<le> j \<and> j < w then F i j (g t i j) else g t i j) else g t x)"
    for i t x
  proof (cases "x = i")
    case True
    have "g (for_loop 0 w (body i) t) i j = (if 0 \<le> j \<and> j < w then F i j (g t i j) else g t i j)"
      for j
      by (rule for_loop_point [where Inv = "\<lambda>_. True" and g = "\<lambda>t. g t i"]) (simp_all add: upd)
    with True show ?thesis by auto
  next
    case False
    have "g (for_loop 0 w (body i) t) x = g t x"
      by (rule for_loop_frame [where K = "\<lambda>t. g t x"]) (use False in \<open>auto simp: upd\<close>)
    with False show ?thesis by simp
  qed
  have "g (for_loop 0 h (\<lambda>i. for_loop 0 w (body i)) s) i' =
        (if 0 \<le> i' \<and> i' < h
         then (\<lambda>r j. if 0 \<le> j \<and> j < w then F i' j (r j) else r j) (g s i') else g s i')"
    by (rule for_loop_point [where Inv = "\<lambda>_. True"]) (simp_all add: inner)
  then show ?thesis by simp
qed

text \<open>Loops that add up, and a loop over the pixels of one row.\<close>

lemma sum_upto_int_step:
  fixes f :: "int \<Rightarrow> real"
  assumes "i \<le> k"
  shows "sum f {i..<k + 1} = sum f {i..<k} + f k"
proof -
  from assms have "{i..<k + 1} = insert k {i..<k}" by auto
  then show ?thesis by simp
qed

lemma for_loop_sum:
  "for_loop i n (\<lambda>k s. s + f k) (a::real) = a + (\<Sum>k = i..<n. f k)"
proof (cases "i \<le> n")
  case True
  show ?thesis
    by (rule for_loop_rule [where I = "\<lambda>m t. t = a + (\<Sum>k = i..<m. f k)"])
       (auto simp: sum_upto_int_step True)
next
  case False
  then show ?thesis by (simp add: for_loop_done)
qed

lemma for_loop_sum2:
  "for_loop i n (\<lambda>k. for_loop l m (\<lambda>j s. s + f k j)) (a::real) =
     a + (\<Sum>k = i..<n. \<Sum>j = l..<m. f k j)"
proof -
  have "(\<lambda>k. for_loop l m (\<lambda>j s. s + f k j)) = (\<lambda>k (s::real). s + (\<Sum>j = l..<m. f k j))"
    by (intro ext) (rule for_loop_sum)
  then show ?thesis by (simp add: for_loop_sum)
qed

lemma for_row_point:
  assumes upd: "\<And>j t i' j'.
      g (body j t) i' j' = (if i' = i \<and> j' = j then F j (g t i j) else g t i' j')"
  shows "g (for_loop 0 w body s) i' j' =
         (if i' = i \<and> 0 \<le> j' \<and> j' < w then F j' (g s i j') else g s i' j')"
proof (cases "i' = i")
  case True
  have "g (for_loop 0 w body s) i j' = (if 0 \<le> j' \<and> j' < w then F j' (g s i j') else g s i j')"
    by (rule for_loop_point [where Inv = "\<lambda>_. True" and g = "\<lambda>t. g t i"]) (simp_all add: upd)
  with True show ?thesis by auto
next
  case False
  have "g (for_loop 0 w body s) i' = g s i'"
    by (rule for_loop_frame [where K = "\<lambda>t. g t i'"]) (use False in \<open>auto simp: upd\<close>)
  with False show ?thesis by simp
qed

lemma for_pixels_frame:
  assumes "\<And>i j t. K (body i j t) = K t"
  shows "K (for_loop 0 h (\<lambda>i. for_loop 0 w (body i)) s) = K s"
  by (rule for_loop_frame) (rule for_loop_frame, rule assms)

lemma for_loop_0_3:
  "for_loop 0 3 body s = body 2 (body 1 (body 0 s))"
  by (simp add: for_loop.simps)

subsection \<open>adm\_decouple\<close>

lemma adm_decouple_view:
  "decouple_view (adm_decouple C ref main r a w h) i j =
     (if 0 \<le> i \<and> i < h \<and> 0 \<le> j \<and> j < w
      then (let tmp = decouple_px C (band_h ref i j) (band_v ref i j) (band_d ref i j)
                        (band_h main i j) (band_v main i j) (band_d main i j)
            in (tmp, (band_h main i j - fst tmp, band_v main i j - fst (snd tmp),
                      band_d main i j - snd (snd tmp))))
      else decouple_view (r, a) i j)"
  unfolding adm_decouple_def
  by (rule for_pixels_point
        [where F = "\<lambda>i j old. (let tmp = decouple_px C (band_h ref i j) (band_v ref i j) (band_d ref i j)
                        (band_h main i j) (band_v main i j) (band_d main i j)
            in (tmp, (band_h main i j - fst tmp, band_v main i j - fst (snd tmp),
                      band_d main i j - snd (snd tmp))))"])
     (auto simp: decouple_view_def adm_decouple_px_def Let_def put_def)

text \<open>
  C1. For reference and distorted detail bands of the same shape \<open>w \<times> h\<close>,
  \<^verbatim>\<open>adm_decouple\<close> writes a restored band \<open>r\<close> and an impairment band \<open>a\<close> of that shape: at
  every pixel of the shape and for each orientation (H, V, D), the restored and the
  impairment coefficient sum to the distorted coefficient, and outside the shape the two
  output buffers are left as they were. (Floats are reals here: the sum is the exact one,
  which the rounding of the one subtraction perturbs by at most one rounding error.)
\<close>

theorem adm_decouple_sum:
  "(0 \<le> i \<and> i < h \<and> 0 \<le> j \<and> j < w \<longrightarrow>
      band_h (fst (adm_decouple C ref main r a w h)) i j +
        band_h (snd (adm_decouple C ref main r a w h)) i j = band_h main i j \<and>
      band_v (fst (adm_decouple C ref main r a w h)) i j +
        band_v (snd (adm_decouple C ref main r a w h)) i j = band_v main i j \<and>
      band_d (fst (adm_decouple C ref main r a w h)) i j +
        band_d (snd (adm_decouple C ref main r a w h)) i j = band_d main i j) \<and>
   (\<not> (0 \<le> i \<and> i < h \<and> 0 \<le> j \<and> j < w) \<longrightarrow>
      decouple_view (adm_decouple C ref main r a w h) i j = decouple_view (r, a) i j)"
proof (cases "decouple_px C (band_h ref i j) (band_v ref i j) (band_d ref i j)
                (band_h main i j) (band_v main i j) (band_d main i j)")
  case (fields tmph tmpv tmpd)
  with adm_decouple_view [of C ref main r a w h i j] show ?thesis
    by (auto simp: decouple_view_def Let_def)
qed

theorem adm_decouple_sum_witness:
  "((0::int) \<le> 1 \<and> (1::int) < 2 \<and> (0::int) \<le> 0 \<and> (0::int) < 3) \<and>
   band_h (fst (adm_decouple sample_consts ramp_band top_row_band zero_band zero_band 3 2)) 1 0 +
     band_h (snd (adm_decouple sample_consts ramp_band top_row_band zero_band zero_band 3 2)) 1 0
     = 3 \<and>
   \<not> ((0::int) \<le> 2 \<and> (2::int) < 2 \<and> (0::int) \<le> 0 \<and> (0::int) < 3) \<and>
   decouple_view (adm_decouple sample_consts ramp_band top_row_band zero_band zero_band 3 2) 2 0
     = ((0, 0, 0), (0, 0, 0))"
  using adm_decouple_sum [of 1 2 0 3 sample_consts ramp_band top_row_band zero_band zero_band]
    adm_decouple_sum [of 2 2 0 3 sample_consts ramp_band top_row_band zero_band zero_band]
  by (simp add: decouple_view_def zero_band_def zero_plane_def top_row_band_def ramp_plane_def)

subsection \<open>offset\_8bit and offset\_10bit\<close>

lemma offset_8bit_px:
  "(fst (offset_8bit ref main data w h) i j, snd (offset_8bit ref main data w h) i j) =
   (if 0 \<le> i \<and> i < h \<and> 0 \<le> j \<and> j < w
    then (real (unat (ref i j)), real (unat (main i j))) else (fst data i j, snd data i j))"
  unfolding offset_8bit_def
  by (rule for_pixels_point [where g = "\<lambda>t i j. (fst t i j, snd t i j)"
        and F = "\<lambda>i j old. (real (unat (ref i j)), real (unat (main i j)))"])
     (auto simp: put_def)

lemma offset_10bit_px:
  "(fst (offset_10bit ref main data w h) i j, snd (offset_10bit ref main data w h) i j) =
   (if 0 \<le> i \<and> i < h \<and> 0 \<le> j \<and> j < w
    then (real (unat (ref i j)), real (unat (main i j))) else (fst data i j, snd data i j))"
  unfolding offset_10bit_def
  by (rule for_pixels_point [where g = "\<lambda>t i j. (fst t i j, snd t i j)"
        and F = "\<lambda>i j old. (real (unat (ref i j)), real (unat (main i j)))"])
     (auto simp: put_def)

text \<open>
  C10. The conversion that feeds \<^verbatim>\<open>compute_adm2\<close>, for 8-bit samples and for 10-bit
  samples (held in 16 bits): every float it writes, at a pixel of the \<open>w \<times> h\<close> frame, is
  the value of the input sample at that pixel, with no offset subtracted; it writes nothing
  else. \<^verbatim>\<open>do_adm\<close> passes the two planes so written to \<^verbatim>\<open>compute_adm2\<close>.
\<close>

theorem offset_fn_plain_cast:
  "fst (offset_8bit ref8 main8 data w h) i j =
     (if 0 \<le> i \<and> i < h \<and> 0 \<le> j \<and> j < w then real (unat (ref8 i j)) else fst data i j) \<and>
   snd (offset_8bit ref8 main8 data w h) i j =
     (if 0 \<le> i \<and> i < h \<and> 0 \<le> j \<and> j < w then real (unat (main8 i j)) else snd data i j) \<and>
   fst (offset_10bit ref16 main16 data w h) i j =
     (if 0 \<le> i \<and> i < h \<and> 0 \<le> j \<and> j < w then real (unat (ref16 i j)) else fst data i j) \<and>
   snd (offset_10bit ref16 main16 data w h) i j =
     (if 0 \<le> i \<and> i < h \<and> 0 \<le> j \<and> j < w then real (unat (main16 i j)) else snd data i j)"
  using offset_8bit_px [of ref8 main8 data w h i j] offset_10bit_px [of ref16 main16 data w h i j]
  by (auto split: if_splits)


subsection \<open>adm\_sum\_cube\<close>

lemma adm_sum_cube_pool:
  "adm_sum_cube x w h b = pool_sum x w h b powr (1 / 3) + pool_stabilizer w h b"
  by (simp add: adm_sum_cube_def pool_sum_def pool_stabilizer_def Let_def powf_def get_cube_def
      for_loop_sum2 power3_eq_cube)

text \<open>
  C8. For every band \<open>x\<close> of \<open>w \<times> h\<close> and every border factor \<open>b\<close>, \<^verbatim>\<open>adm_sum_cube\<close>
  returns the cube root of the sum of \<open>|x|\<^sup>3\<close> over the rows \<open>[top, bottom)\<close> and the columns
  \<open>[left, right)\<close>, where \<open>left = trunc (w b - 0.5)\<close>, \<open>top = trunc (h b - 0.5)\<close>,
  \<open>right = w - left\<close>, \<open>bottom = h - top\<close>, plus the cube root of
  \<open>(bottom - top) (right - left) / 32\<close>; the second term does not mention the pixels.
\<close>

theorem adm_sum_cube_formula:
  "adm_sum_cube x w h b = pool_sum x w h b powr (1 / 3) + pool_stabilizer w h b"
  by (rule adm_sum_cube_pool)

subsection \<open>adm\_csf\<close>

lemma csf_loop_0:
  fixes f :: "int \<Rightarrow> int \<Rightarrow> real" and w h :: int
  defines "L \<equiv> \<lambda>dst. for_loop 0 h (\<lambda>i. for_loop 0 w (\<lambda>j dst.
             angles_put dst 0 (put (angles dst 0) i j (f i j)))) dst"
  shows "band_h (L dst) i j = (if 0 \<le> i \<and> i < h \<and> 0 \<le> j \<and> j < w then f i j else band_h dst i j)"
    and "band_v (L dst) = band_v dst" and "band_d (L dst) = band_d dst"
    and "band_a (L dst) = band_a dst"
proof -
  show "band_h (L dst) i j = (if 0 \<le> i \<and> i < h \<and> 0 \<le> j \<and> j < w then f i j else band_h dst i j)"
    unfolding L_def
    by (rule for_pixels_point [where g = band_h and F = "\<lambda>i j old. f i j"])
       (auto simp: angles_def angles_put_def put_def)
  show "band_v (L dst) = band_v dst" unfolding L_def
    by (rule for_pixels_frame) (simp add: angles_put_def)
  show "band_d (L dst) = band_d dst" unfolding L_def
    by (rule for_pixels_frame) (simp add: angles_put_def)
  show "band_a (L dst) = band_a dst" unfolding L_def
    by (rule for_pixels_frame) (simp add: angles_put_def)
qed

lemma csf_loop_1:
  fixes f :: "int \<Rightarrow> int \<Rightarrow> real" and w h :: int
  defines "L \<equiv> \<lambda>dst. for_loop 0 h (\<lambda>i. for_loop 0 w (\<lambda>j dst.
             angles_put dst 1 (put (angles dst 1) i j (f i j)))) dst"
  shows "band_v (L dst) i j = (if 0 \<le> i \<and> i < h \<and> 0 \<le> j \<and> j < w then f i j else band_v dst i j)"
    and "band_h (L dst) = band_h dst" and "band_d (L dst) = band_d dst"
    and "band_a (L dst) = band_a dst"
proof -
  show "band_v (L dst) i j = (if 0 \<le> i \<and> i < h \<and> 0 \<le> j \<and> j < w then f i j else band_v dst i j)"
    unfolding L_def
    by (rule for_pixels_point [where g = band_v and F = "\<lambda>i j old. f i j"])
       (auto simp: angles_def angles_put_def put_def)
  show "band_h (L dst) = band_h dst" unfolding L_def
    by (rule for_pixels_frame) (simp add: angles_put_def)
  show "band_d (L dst) = band_d dst" unfolding L_def
    by (rule for_pixels_frame) (simp add: angles_put_def)
  show "band_a (L dst) = band_a dst" unfolding L_def
    by (rule for_pixels_frame) (simp add: angles_put_def)
qed

lemma csf_loop_2:
  fixes f :: "int \<Rightarrow> int \<Rightarrow> real" and w h :: int
  defines "L \<equiv> \<lambda>dst. for_loop 0 h (\<lambda>i. for_loop 0 w (\<lambda>j dst.
             angles_put dst 2 (put (angles dst 2) i j (f i j)))) dst"
  shows "band_d (L dst) i j = (if 0 \<le> i \<and> i < h \<and> 0 \<le> j \<and> j < w then f i j else band_d dst i j)"
    and "band_h (L dst) = band_h dst" and "band_v (L dst) = band_v dst"
    and "band_a (L dst) = band_a dst"
proof -
  show "band_d (L dst) i j = (if 0 \<le> i \<and> i < h \<and> 0 \<le> j \<and> j < w then f i j else band_d dst i j)"
    unfolding L_def
    by (rule for_pixels_point [where g = band_d and F = "\<lambda>i j old. f i j"])
       (auto simp: angles_def angles_put_def put_def)
  show "band_h (L dst) = band_h dst" unfolding L_def
    by (rule for_pixels_frame) (simp add: angles_put_def)
  show "band_v (L dst) = band_v dst" unfolding L_def
    by (rule for_pixels_frame) (simp add: angles_put_def)
  show "band_a (L dst) = band_a dst" unfolding L_def
    by (rule for_pixels_frame) (simp add: angles_put_def)
qed

lemma adm_csf_px:
  "hvd (adm_csf C src dst orig_h scale w h) i j =
     (if 0 \<le> i \<and> i < h \<and> 0 \<le> j \<and> j < w
      then (adm_csf_rfactor C scale ! 0 * band_h src i j,
            adm_csf_rfactor C scale ! 1 * band_v src i j,
            adm_csf_rfactor C scale ! 2 * band_d src i j)
      else hvd dst i j)"
  by (simp add: adm_csf_def Let_def for_loop_0_3 hvd_def csf_loop_0 csf_loop_1 csf_loop_2)
     (simp add: angles_def)

lemma adm_csf_band_a: "band_a (adm_csf C src dst orig_h scale w h) = band_a dst"
  by (simp add: adm_csf_def Let_def for_loop_0_3 csf_loop_0 csf_loop_1 csf_loop_2)

text \<open>
  C9 (as amended). \<^verbatim>\<open>adm_csf\<close> receives the original height of the frame and never reads
  it: its output is the same for every \<open>orig_h\<close>. At each pixel of the \<open>w \<times> h\<close> band it
  divides the H and V coefficients by the quantization step of the scale for \<open>theta = 1\<close>
  and the D coefficient by the step for \<open>theta = 2\<close>, and \<^verbatim>\<open>dwt_quant_step\<close> forms those
  from the constants \<^verbatim>\<open>VIEW_DIST\<close> and \<^verbatim>\<open>REF_DISPLAY_HEIGHT\<close>.
\<close>

theorem adm_csf_ignores_orig_h:
  "adm_csf C src dst orig_h scale w h = adm_csf C src dst orig_h' scale w h \<and>
   hvd (adm_csf C src dst orig_h scale w h) i j =
     (if 0 \<le> i \<and> i < h \<and> 0 \<le> j \<and> j < w
      then (band_h src i j / dwt_quant_step C (dwt_7_9_YCbCr_threshold C ! 0) scale 1,
            band_v src i j / dwt_quant_step C (dwt_7_9_YCbCr_threshold C ! 0) scale 1,
            band_d src i j / dwt_quant_step C (dwt_7_9_YCbCr_threshold C ! 0) scale 2)
      else hvd dst i j)"
  by (simp add: adm_csf_px) (simp add: adm_csf_def adm_csf_rfactor_def Let_def)

text \<open>The claim C9 as stated fails: doubling \<open>orig_h\<close> from 1080 to 2160 changes
  nothing in the output.\<close>

theorem adm_csf_orig_h_counterexample:
  "adm_csf sample_consts ramp_band zero_band 1080 0 4 4 =
   adm_csf sample_consts ramp_band zero_band 2160 0 4 4"
  by (simp add: adm_csf_def)

subsection \<open>adm\_cm\_thresh and adm\_cm\<close>

lemma reflect_mirror:
  "(if FFABS idx \<ge> n then 2 * n - FFABS idx - 1 else FFABS idx) = mirror n idx"
  by (auto simp: FFABS_def mirror_def Let_def)

lemma int_m1_1: "{-1..1::int} = {-1, 0, 1}"
  by auto

lemma adm_cm_thresh_sum_spec:
  "adm_cm_thresh_sum p w h i j = cm_filter3x3 p w h i j"
  by (simp add: adm_cm_thresh_sum_def Let_def reflect_mirror for_loop_0_3 cm_filter3x3_def int_m1_1
      add.commute)

lemma thresh_zero_row:
  "for_loop 0 w (\<lambda>j dst. put dst i j 0) dst i' j' =
     (if i' = i \<and> 0 \<le> j' \<and> j' < w then 0 else dst i' j')"
  by (rule for_row_point [where g = "\<lambda>t. t" and F = "\<lambda>j old. 0"]) (auto simp: put_def)

lemma thresh_add_row:
  "for_loop 0 w (\<lambda>j dst. put dst i j (dst i j + f j)) dst i' j' =
     (if i' = i \<and> 0 \<le> j' \<and> j' < w then dst i j' + f j' else dst i' j')"
  by (rule for_row_point [where g = "\<lambda>t. t" and F = "\<lambda>j old. old + f j"]) (auto simp: put_def)

lemma adm_cm_thresh_row:
  "for_loop 0 3 (\<lambda>theta. for_loop 0 w (\<lambda>j dst.
       put dst i j (dst i j + adm_cm_thresh_sum (angles src theta) w h i j)))
     (for_loop 0 w (\<lambda>j dst. put dst i j 0) dst) x
   = (if x = i then (\<lambda>j. if 0 \<le> j \<and> j < w then cm_thresh_spec src w h i j else dst i j) else dst x)"
  by (rule ext)
     (simp add: for_loop_0_3 thresh_add_row thresh_zero_row adm_cm_thresh_sum_spec
       cm_thresh_spec_def angles_def)

lemma adm_cm_thresh_px:
  "adm_cm_thresh src dst w h i j =
     (if 0 \<le> i \<and> i < h \<and> 0 \<le> j \<and> j < w then cm_thresh_spec src w h i j else dst i j)"
proof -
  have "adm_cm_thresh src dst w h i =
     (if 0 \<le> i \<and> i < h
      then (\<lambda>old j. if 0 \<le> j \<and> j < w then cm_thresh_spec src w h i j else old j) (dst i)
      else dst i)"
    unfolding adm_cm_thresh_def
    by (rule for_loop_point [where Inv = "\<lambda>_. True" and g = "\<lambda>t. t"])
       (simp_all add: adm_cm_thresh_row)
  then show ?thesis by simp
qed

lemma adm_cm_px_max: "adm_cm_px x thr = max 0 (\<bar>x\<bar> - thr)"
  by (simp add: adm_cm_px_def Let_def max_def)

lemma adm_cm_hvd:
  "hvd (adm_cm src dst thresh w h) i j =
     (if 0 \<le> i \<and> i < h \<and> 0 \<le> j \<and> j < w
      then (max 0 (\<bar>band_h src i j\<bar> - thresh i j), max 0 (\<bar>band_v src i j\<bar> - thresh i j),
            max 0 (\<bar>band_d src i j\<bar> - thresh i j))
      else hvd dst i j)"
  unfolding adm_cm_def
  by (rule for_pixels_point [where g = hvd and F = "\<lambda>i j old.
         (max 0 (\<bar>band_h src i j\<bar> - thresh i j), max 0 (\<bar>band_v src i j\<bar> - thresh i j),
            max 0 (\<bar>band_d src i j\<bar> - thresh i j))"])
     (auto simp: hvd_def Let_def put_def adm_cm_px_max)

text \<open>
  C7. At every pixel of the \<open>w \<times> h\<close> band, the threshold that \<^verbatim>\<open>adm_cm_thresh\<close> writes is
  the sum over the three orientations of the 3 \<times> 3 filter (1/15 at the centre, 1/30
  elsewhere) on the absolute values of the CSF-weighted impairment band, with the mirror
  rule at the boundary; the output of \<^verbatim>\<open>adm_cm\<close> is, per orientation,
  \<open>max 0 (|weighted restored| - threshold)\<close>, and so it is never negative. Outside the
  \<open>w \<times> h\<close> pixels both leave their output buffers as they were.
\<close>

theorem contrast_masking:
  "adm_cm_thresh a_csf mta0 w h i j =
     (if 0 \<le> i \<and> i < h \<and> 0 \<le> j \<and> j < w then cm_thresh_spec a_csf w h i j else mta0 i j) \<and>
   hvd (adm_cm r_csf dst thresh w h) i j =
     (if 0 \<le> i \<and> i < h \<and> 0 \<le> j \<and> j < w
      then (max 0 (\<bar>band_h r_csf i j\<bar> - thresh i j), max 0 (\<bar>band_v r_csf i j\<bar> - thresh i j),
            max 0 (\<bar>band_d r_csf i j\<bar> - thresh i j))
      else hvd dst i j) \<and>
   (0 \<le> i \<and> i < h \<and> 0 \<le> j \<and> j < w \<longrightarrow>
      0 \<le> band_h (adm_cm r_csf dst thresh w h) i j \<and>
      0 \<le> band_v (adm_cm r_csf dst thresh w h) i j \<and>
      0 \<le> band_d (adm_cm r_csf dst thresh w h) i j)"
  using adm_cm_hvd [of r_csf dst thresh w h i j]
  by (auto simp: adm_cm_thresh_px hvd_def split: if_splits)

theorem contrast_masking_witness:
  "((0::int) \<le> 1 \<and> (1::int) < 2 \<and> (0::int) \<le> 0 \<and> (0::int) < 2) \<and>
   0 \<le> band_h (adm_cm ramp_band zero_band ramp_plane 2 2) 1 0 \<and>
   0 \<le> band_v (adm_cm ramp_band zero_band ramp_plane 2 2) 1 0 \<and>
   0 \<le> band_d (adm_cm ramp_band zero_band ramp_plane 2 2) 1 0"
  using contrast_masking [of zero_band zero_plane 2 2 1 0 ramp_band zero_band ramp_plane]
  by simp

subsection \<open>adm\_dwt2\<close>

lemma for_loop_sum_pair:
  "for_loop i n (\<lambda>k acc. (fst acc + f k, snd acc + g k)) (a::real, b::real) =
     (a + (\<Sum>k = i..<n. f k), b + (\<Sum>k = i..<n. g k))"
proof (cases "i \<le> n")
  case True
  show ?thesis
    by (rule for_loop_rule
          [where I = "\<lambda>m t. t = (a + (\<Sum>k = i..<m. f k), b + (\<Sum>k = i..<m. g k))"])
       (auto simp: sum_upto_int_step True)
next
  case False
  then show ?thesis by (simp add: for_loop_done)
qed

lemma adm_dwt2_vertical_taps:
  "adm_dwt2_vertical C src h i j =
     (dwt2_taps (int (length (dwt2_db2_coeffs_lo C))) (dwt2_db2_coeffs_lo C) (\<lambda>r. src r j) h i,
      dwt2_taps (int (length (dwt2_db2_coeffs_lo C))) (dwt2_db2_coeffs_hi C) (\<lambda>r. src r j) h i)"
  by (simp add: adm_dwt2_vertical_def Let_def reflect_mirror for_loop_sum_pair dwt2_taps_def)

lemma adm_dwt2_horizontal_taps:
  "adm_dwt2_horizontal C temp w j =
     (dwt2_taps (int (length (dwt2_db2_coeffs_lo C))) (dwt2_db2_coeffs_lo C) temp w j,
      dwt2_taps (int (length (dwt2_db2_coeffs_lo C))) (dwt2_db2_coeffs_hi C) temp w j)"
  by (simp add: adm_dwt2_horizontal_def Let_def reflect_mirror for_loop_sum_pair dwt2_taps_def)

lemma dwt2_temps_loop:
  "for_loop 0 w (\<lambda>j temps. ((fst temps)(j := f j), (snd temps)(j := g j))) (t1, t2) =
     ((\<lambda>j. if 0 \<le> j \<and> j < w then f j else t1 j), (\<lambda>j. if 0 \<le> j \<and> j < w then g j else t2 j))"
proof -
  let ?L = "for_loop 0 w (\<lambda>j temps. ((fst temps)(j := f j), (snd temps)(j := g j))) (t1, t2)"
  have "fst ?L x = (if 0 \<le> x \<and> x < w then f x else fst (t1, t2) x)" for x
    by (rule for_loop_point [where Inv = "\<lambda>_. True" and g = fst and F = "\<lambda>j old. f j"]) simp_all
  moreover have "snd ?L x = (if 0 \<le> x \<and> x < w then g x else snd (t1, t2) x)" for x
    by (rule for_loop_point [where Inv = "\<lambda>_. True" and g = snd and F = "\<lambda>j old. g j"]) simp_all
  ultimately have "fst ?L = (\<lambda>j. if 0 \<le> j \<and> j < w then f j else t1 j)"
    and "snd ?L = (\<lambda>j. if 0 \<le> j \<and> j < w then g j else t2 j)"
    by (simp_all add: fun_eq_iff)
  then show ?thesis by (simp add: prod_eq_iff)
qed

lemma dwt2_row_av:
  "avhd (for_loop 0 n (\<lambda>j dst. dst\<lparr>band_a := put (band_a dst) i j (f j),
                                      band_v := put (band_v dst) i j (g j)\<rparr>) dst) i' j' =
     (if i' = i \<and> 0 \<le> j' \<and> j' < n
      then (f j', g j', band_h dst i j', band_d dst i j') else avhd dst i' j')"
  using for_row_point [where g = avhd and i = i and w = n and s = dst and i' = i' and j' = j'
      and F = "\<lambda>j old. (f j, g j, fst (snd (snd old)), snd (snd (snd old)))"
      and body = "\<lambda>j dst. dst\<lparr>band_a := put (band_a dst) i j (f j),
                                      band_v := put (band_v dst) i j (g j)\<rparr>"]
  by (simp add: avhd_def put_def)

lemma dwt2_row_hd:
  "avhd (for_loop 0 n (\<lambda>j dst. dst\<lparr>band_h := put (band_h dst) i j (f j),
                                      band_d := put (band_d dst) i j (g j)\<rparr>) dst) i' j' =
     (if i' = i \<and> 0 \<le> j' \<and> j' < n
      then (band_a dst i j', band_v dst i j', f j', g j') else avhd dst i' j')"
  using for_row_point [where g = avhd and i = i and w = n and s = dst and i' = i' and j' = j'
      and F = "\<lambda>j old. (fst old, fst (snd old), f j, g j)"
      and body = "\<lambda>j dst. dst\<lparr>band_h := put (band_h dst) i j (f j),
                                      band_d := put (band_d dst) i j (g j)\<rparr>"]
  by (simp add: avhd_def put_def)

lemma avhd_sel:
  "band_a b i j = fst (avhd b i j)" "band_v b i j = fst (snd (avhd b i j))"
  "band_h b i j = fst (snd (snd (avhd b i j)))" "band_d b i j = snd (snd (snd (avhd b i j)))"
  by (simp_all add: avhd_def)

lemma adm_dwt2_row_temps:
  "temp_lo_buf (adm_dwt2_row C src w h i s) =
     dwt2_temp (int (length (dwt2_db2_coeffs_lo C))) (dwt2_db2_coeffs_lo C) src (temp_lo_buf s) w h i"
  "temp_hi_buf (adm_dwt2_row C src w h i s) =
     dwt2_temp (int (length (dwt2_db2_coeffs_lo C))) (dwt2_db2_coeffs_hi C) src (temp_hi_buf s) w h i"
  by (simp_all add: adm_dwt2_row_def Let_def adm_dwt2_vertical_taps dwt2_temps_loop dwt2_temp_def)

lemma adm_dwt2_row_avhd:
  "avhd (dst_band (adm_dwt2_row C src w h i s)) i' j' =
     (if i' = i \<and> 0 \<le> j' \<and> j' < (w + 1) div 2
      then dwt2_spec C src (temp_lo_buf s) (temp_hi_buf s) w h i j'
      else avhd (dst_band s) i' j')"
  by (simp add: adm_dwt2_row_def Let_def adm_dwt2_vertical_taps adm_dwt2_horizontal_taps
      dwt2_temps_loop dwt2_row_hd dwt2_row_av avhd_sel dwt2_spec_def dwt2_temp_def)

lemma dwt2_temp_outside:
  "\<not> (0 \<le> j \<and> j < w) \<Longrightarrow> dwt2_temp len filt src temp w h i j = temp j"
  by (auto simp: dwt2_temp_def)

lemma dwt2_temp_agree:
  assumes "\<And>j. \<not> (0 \<le> j \<and> j < w) \<Longrightarrow> temp j = temp' j"
  shows "dwt2_temp len filt src temp w h i = dwt2_temp len filt src temp' w h i"
  by (rule ext) (simp add: dwt2_temp_def assms)

lemma dwt2_spec_agree:
  assumes "\<And>j. \<not> (0 \<le> j \<and> j < w) \<Longrightarrow> t1 j = t1' j"
    and "\<And>j. \<not> (0 \<le> j \<and> j < w) \<Longrightarrow> t2 j = t2' j"
  shows "dwt2_spec C src t1 t2 w h i j = dwt2_spec C src t1' t2' w h i j"
  using dwt2_temp_agree [of w t1 t1'] dwt2_temp_agree [of w t2 t2'] assms
  by (simp add: dwt2_spec_def Let_def)

lemma adm_dwt2_avhd:
  "avhd (dst_band (adm_dwt2 C src dst w h t1 t2)) i j =
     (if 0 \<le> i \<and> i < (h + 1) div 2 \<and> 0 \<le> j \<and> j < (w + 1) div 2
      then dwt2_spec C src t1 t2 w h i j else avhd dst i j)"
proof -
  define Inv where "Inv s \<longleftrightarrow>
    (\<forall>j. \<not> (0 \<le> j \<and> j < w) \<longrightarrow> temp_lo_buf s j = t1 j \<and> temp_hi_buf s j = t2 j)"
    for s :: dwt2_state
  define s0 where "s0 = \<lparr>dst_band = dst, temp_lo_buf = t1, temp_hi_buf = t2\<rparr>"
  have inv0: "Inv s0" by (simp add: Inv_def s0_def)
  have inv_step: "Inv (adm_dwt2_row C src w h k t)" if "Inv t" for k t
    using that by (simp add: Inv_def adm_dwt2_row_temps dwt2_temp_outside)
  have upd: "(\<lambda>i j. avhd (dst_band (adm_dwt2_row C src w h k t)) i j) x =
      (if x = k then (\<lambda>old j. if 0 \<le> j \<and> j < (w + 1) div 2
                                then dwt2_spec C src t1 t2 w h k j else old j)
                       ((\<lambda>i j. avhd (dst_band t) i j) k)
       else (\<lambda>i j. avhd (dst_band t) i j) x)" if "Inv t" for k t x
  proof -
    have "dwt2_spec C src (temp_lo_buf t) (temp_hi_buf t) w h k j = dwt2_spec C src t1 t2 w h k j"
      for j
      by (rule dwt2_spec_agree) (use that in \<open>auto simp: Inv_def\<close>)
    then show ?thesis by (auto simp: adm_dwt2_row_avhd fun_eq_iff)
  qed
  have "(\<lambda>i j. avhd (dst_band (for_loop 0 ((h + 1) div 2) (adm_dwt2_row C src w h) s0)) i j) i =
      (if 0 \<le> i \<and> i < (h + 1) div 2
       then (\<lambda>old j. if 0 \<le> j \<and> j < (w + 1) div 2
                       then dwt2_spec C src t1 t2 w h i j else old j)
              ((\<lambda>i j. avhd (dst_band s0) i j) i)
       else (\<lambda>i j. avhd (dst_band s0) i j) i)"
    by (rule for_loop_point [where Inv = Inv and g = "\<lambda>s i j. avhd (dst_band s) i j"])
       (fact inv0, fact inv_step, fact upd)
  then show ?thesis
    by (simp add: adm_dwt2_def s0_def fun_eq_iff)
qed

lemma mirror_inside: "0 \<le> idx \<Longrightarrow> idx < n \<Longrightarrow> mirror n idx = idx"
  by (simp add: mirror_def)

lemma mirror_dwt2_range:
  assumes "2 \<le> n" "0 \<le> c" "c < (n + 1) div 2" "0 \<le> k" "k < 4"
  shows "0 \<le> mirror n (2 * c - 1 + k) \<and> mirror n (2 * c - 1 + k) < n"
  using assms by (auto simp: mirror_def Let_def)

text \<open>
  C6. For every input plane of \<open>w \<times> h\<close>, one call of \<^verbatim>\<open>adm_dwt2\<close> writes the pixels
  \<open>0 \<le> i < (h + 1) / 2\<close>, \<open>0 \<le> j < (w + 1) / 2\<close> of each of the four sub-bands, and no
  other; what it writes there is the two-pass filter in which every source index goes
  through \<open>mirror\<close>. That rule leaves an index of \<open>[0, dim)\<close> alone and sends any other to
  \<open>|idx|\<close>, or to \<open>2 dim - |idx| - 1\<close> when \<open>|idx|\<close> is still out of range.
\<close>

theorem adm_dwt2_shape_mirror:
  "avhd (dst_band (adm_dwt2 C src dst w h t1 t2)) i j =
     (if 0 \<le> i \<and> i < (h + 1) div 2 \<and> 0 \<le> j \<and> j < (w + 1) div 2
      then dwt2_spec C src t1 t2 w h i j else avhd dst i j) \<and>
   (0 \<le> idx \<and> idx < n \<longrightarrow> mirror n idx = idx) \<and>
   (\<not> (0 \<le> idx \<and> idx < n) \<longrightarrow>
      mirror n idx = (if \<bar>idx\<bar> < n then \<bar>idx\<bar> else 2 * n - \<bar>idx\<bar> - 1))"
  by (auto simp: adm_dwt2_avhd mirror_def Let_def)

theorem adm_dwt2_shape_mirror_witness:
  "((0::int) \<le> 3 \<and> (3::int) < 5 \<and> mirror 5 3 = 3) \<and>
   (\<not> ((0::int) \<le> -1 \<and> (-1::int) < 5) \<and> mirror 5 (-1) = 1) \<and>
   (\<not> ((0::int) \<le> 6 \<and> (6::int) < 5) \<and> mirror 5 6 = 3) \<and>
   avhd (dst_band (adm_dwt2 sample_consts ramp_plane zero_band 5 5 (\<lambda>j. 0) (\<lambda>j. 0))) 3 0 =
     (0, 0, 0, 0)"
  using adm_dwt2_shape_mirror [of sample_consts ramp_plane zero_band 5 5 "\<lambda>j. 0" "\<lambda>j. 0" 3 0 3 5]
    adm_dwt2_shape_mirror [of sample_consts ramp_plane zero_band 5 5 "\<lambda>j. 0" "\<lambda>j. 0" 3 0 "-1" 5]
    adm_dwt2_shape_mirror [of sample_consts ramp_plane zero_band 5 5 "\<lambda>j. 0" "\<lambda>j. 0" 3 0 6 5]
  by (simp add: avhd_def zero_band_def zero_plane_def)

subsection \<open>compute\_adm2: the final reduction\<close>

lemma for_loop_snoc:
  assumes "i \<le> n"
  shows "for_loop i (n + 1) body s = body n (for_loop i n body s)"
  using assms
proof (induction "nat (n - i)" arbitrary: i s)
  case 0
  then have "i = n" by simp
  then show ?case by (simp add: for_loop_step for_loop_done)
next
  case (Suc m)
  then have lt: "i < n" by linarith
  have "for_loop (i + 1) (n + 1) body (body i s) = body n (for_loop (i + 1) n body (body i s))"
    by (rule Suc.hyps(1)) (use Suc.hyps(2) lt in linarith)+
  with lt show ?case by (simp add: for_loop_step)
qed

lemma scale_state_0: "scale_state C ref main w h bufs 0 = compute_adm2_init ref main w h bufs"
  by (simp add: scale_state_def for_loop_done)

lemma scale_state_step:
  "0 \<le> k \<Longrightarrow> scale_state C ref main w h bufs (k + 1) =
     compute_adm2_scale C h k (scale_state C ref main w h bufs k)"
  by (simp add: scale_state_def for_loop_snoc)

lemma compute_adm2_scale_scores:
  "scores (compute_adm2_scale C oh k st) x =
     (if x = 2 * k \<or> x = 2 * k + 1 then scores (compute_adm2_scale C oh k st) x else scores st x)"
  by (simp add: compute_adm2_scale_def Let_def)

lemma compute_adm2_scale_num:
  "num (compute_adm2_scale C oh k st) = num st + scores (compute_adm2_scale C oh k st) (2 * k)"
  by (simp add: compute_adm2_scale_def Let_def)

lemma compute_adm2_scale_den:
  "den (compute_adm2_scale C oh k st) = den st + scores (compute_adm2_scale C oh k st) (2 * k + 1)"
  by (simp add: compute_adm2_scale_def Let_def)

lemma scale_state_sums:
  "num (scale_state C ref main w h bufs 4) =
     0 + scores (scale_state C ref main w h bufs 4) 0 + scores (scale_state C ref main w h bufs 4) 2 +
     scores (scale_state C ref main w h bufs 4) 4 + scores (scale_state C ref main w h bufs 4) 6"
  "den (scale_state C ref main w h bufs 4) =
     0 + scores (scale_state C ref main w h bufs 4) 1 + scores (scale_state C ref main w h bufs 4) 3 +
     scores (scale_state C ref main w h bufs 4) 5 + scores (scale_state C ref main w h bufs 4) 7"
proof -
  define s0 where "s0 = scale_state C ref main w h bufs 0"
  define s1 where "s1 = scale_state C ref main w h bufs 1"
  define s2 where "s2 = scale_state C ref main w h bufs 2"
  define s3 where "s3 = scale_state C ref main w h bufs 3"
  define s4 where "s4 = scale_state C ref main w h bufs 4"
  have st: "s1 = compute_adm2_scale C h 0 s0" "s2 = compute_adm2_scale C h 1 s1"
    "s3 = compute_adm2_scale C h 2 s2" "s4 = compute_adm2_scale C h 3 s3"
    using scale_state_step [of 0 C ref main w h bufs] scale_state_step [of 1 C ref main w h bufs]
      scale_state_step [of 2 C ref main w h bufs] scale_state_step [of 3 C ref main w h bufs]
    by (simp_all add: s0_def s1_def s2_def s3_def s4_def)
  have n0: "num s0 = 0" "den s0 = 0" by (simp_all add: s0_def scale_state_0 compute_adm2_init_def)
  have sc4: "scores s4 x = scores s3 x" if "x \<noteq> 6" "x \<noteq> 7" for x
    using compute_adm2_scale_scores [of C h 3 s3 x] that by (simp add: st)
  have sc3: "scores s3 x = scores s2 x" if "x \<noteq> 4" "x \<noteq> 5" for x
    using compute_adm2_scale_scores [of C h 2 s2 x] that by (simp add: st)
  have sc2: "scores s2 x = scores s1 x" if "x \<noteq> 2" "x \<noteq> 3" for x
    using compute_adm2_scale_scores [of C h 1 s1 x] that by (simp add: st)
  have "num s4 = 0 + scores s1 0 + scores s2 2 + scores s3 4 + scores s4 6"
    using compute_adm2_scale_num [of C h 3 s3] compute_adm2_scale_num [of C h 2 s2]
      compute_adm2_scale_num [of C h 1 s1] compute_adm2_scale_num [of C h 0 s0] n0
    by (simp add: st)
  then show "num (scale_state C ref main w h bufs 4) =
     0 + scores (scale_state C ref main w h bufs 4) 0 + scores (scale_state C ref main w h bufs 4) 2 +
     scores (scale_state C ref main w h bufs 4) 4 + scores (scale_state C ref main w h bufs 4) 6"
    by (simp add: s4_def [symmetric] sc4 sc3 sc2)
  have "den s4 = 0 + scores s1 1 + scores s2 3 + scores s3 5 + scores s4 7"
    using compute_adm2_scale_den [of C h 3 s3] compute_adm2_scale_den [of C h 2 s2]
      compute_adm2_scale_den [of C h 1 s1] compute_adm2_scale_den [of C h 0 s0] n0
    by (simp add: st)
  then show "den (scale_state C ref main w h bufs 4) =
     0 + scores (scale_state C ref main w h bufs 4) 1 + scores (scale_state C ref main w h bufs 4) 3 +
     scores (scale_state C ref main w h bufs 4) 5 + scores (scale_state C ref main w h bufs 4) 7"
    by (simp add: s4_def [symmetric] sc4 sc3 sc2)
qed

lemma compute_adm2_fields:
  "scores_out (compute_adm2 C ref main w h bufs) = scores (scale_state C ref main w h bufs 4)"
  "score_num (compute_adm2 C ref main w h bufs) =
     (if num (scale_state C ref main w h bufs 4) < 1 / 100 * real_of_int (w * h) / (1920 * 1080)
      then 0 else num (scale_state C ref main w h bufs 4))"
  "score_den (compute_adm2 C ref main w h bufs) =
     (if den (scale_state C ref main w h bufs 4) < 1 / 100 * real_of_int (w * h) / (1920 * 1080)
      then 0 else den (scale_state C ref main w h bufs 4))"
  "score (compute_adm2 C ref main w h bufs) =
     (if score_den (compute_adm2 C ref main w h bufs) = 0 then 1
      else score_num (compute_adm2 C ref main w h bufs) /
           score_den (compute_adm2 C ref main w h bufs))"
  by (simp_all add: compute_adm2_def scale_state_def Let_def)

text \<open>
  C2. The final reduction of \<^verbatim>\<open>compute_adm2\<close>: the numerator and the denominator are the
  sums, in the order of the scales, of the four per-scale numerators \<^verbatim>\<open>scores[0,2,4,6]\<close>
  and denominators \<^verbatim>\<open>scores[1,3,5,7]\<close>; a sum strictly below
  \<open>1e-2 (w h) / (1920 \<times> 1080)\<close> is replaced by zero; the score is
  \<open>score_num / score_den\<close>, and 1 when \<open>score_den\<close> is zero.
\<close>

theorem compute_adm2_final_reduction:
  "score_num (compute_adm2 C ref main w h bufs) =
     (let sum_num = 0 + scores_out (compute_adm2 C ref main w h bufs) 0
                      + scores_out (compute_adm2 C ref main w h bufs) 2
                      + scores_out (compute_adm2 C ref main w h bufs) 4
                      + scores_out (compute_adm2 C ref main w h bufs) 6
      in if sum_num < 1 / 100 * (real_of_int w * real_of_int h) / (1920 * 1080) then 0 else sum_num) \<and>
   score_den (compute_adm2 C ref main w h bufs) =
     (let sum_den = 0 + scores_out (compute_adm2 C ref main w h bufs) 1
                      + scores_out (compute_adm2 C ref main w h bufs) 3
                      + scores_out (compute_adm2 C ref main w h bufs) 5
                      + scores_out (compute_adm2 C ref main w h bufs) 7
      in if sum_den < 1 / 100 * (real_of_int w * real_of_int h) / (1920 * 1080) then 0 else sum_den) \<and>
   score (compute_adm2 C ref main w h bufs) =
     (if score_den (compute_adm2 C ref main w h bufs) = 0 then 1
      else score_num (compute_adm2 C ref main w h bufs) /
           score_den (compute_adm2 C ref main w h bufs))"
  using scale_state_sums [of C ref main w h bufs]
  by (simp add: compute_adm2_fields Let_def)

subsection \<open>compute\_adm2: one scale\<close>

text \<open>The fields of the state after one iteration of the scale loop.\<close>

lemma compute_adm2_scale_dims:
  "cur_w (compute_adm2_scale C oh k st) = (cur_w st + 1) div 2"
  "cur_h (compute_adm2_scale C oh k st) = (cur_h st + 1) div 2"
  by (simp_all add: compute_adm2_scale_def Let_def)

lemma compute_adm2_scale_dwt:
  "ref_dwt2 (compute_adm2_scale C oh k st) =
     dst_band (adm_dwt2 C (curr_ref_scale st) (ref_dwt2 st) (cur_w st) (cur_h st)
                 (temp_lo st) (temp_hi st))"
  "\<exists>t1 t2. main_dwt2 (compute_adm2_scale C oh k st) =
     dst_band (adm_dwt2 C (curr_main_scale st) (main_dwt2 st) (cur_w st) (cur_h st) t1 t2)"
  by (simp_all add: compute_adm2_scale_def Let_def) blast

lemma compute_adm2_scale_bufs:
  "decouple_r (compute_adm2_scale C oh k st) =
     fst (adm_decouple C (ref_dwt2 (compute_adm2_scale C oh k st))
            (main_dwt2 (compute_adm2_scale C oh k st)) (decouple_r st) (decouple_a st)
            (cur_w (compute_adm2_scale C oh k st)) (cur_h (compute_adm2_scale C oh k st)))"
  "decouple_a (compute_adm2_scale C oh k st) =
     snd (adm_decouple C (ref_dwt2 (compute_adm2_scale C oh k st))
            (main_dwt2 (compute_adm2_scale C oh k st)) (decouple_r st) (decouple_a st)
            (cur_w (compute_adm2_scale C oh k st)) (cur_h (compute_adm2_scale C oh k st)))"
  "csf_o (compute_adm2_scale C oh k st) =
     adm_csf C (ref_dwt2 (compute_adm2_scale C oh k st)) (csf_o st) oh k
       (cur_w (compute_adm2_scale C oh k st)) (cur_h (compute_adm2_scale C oh k st))"
  "csf_r (compute_adm2_scale C oh k st) =
     adm_csf C (decouple_r (compute_adm2_scale C oh k st)) (csf_r st) oh k
       (cur_w (compute_adm2_scale C oh k st)) (cur_h (compute_adm2_scale C oh k st))"
  "csf_a (compute_adm2_scale C oh k st) =
     adm_csf C (decouple_a (compute_adm2_scale C oh k st)) (csf_a st) oh k
       (cur_w (compute_adm2_scale C oh k st)) (cur_h (compute_adm2_scale C oh k st))"
  "mta (compute_adm2_scale C oh k st) =
     adm_cm_thresh (csf_a (compute_adm2_scale C oh k st)) (mta st)
       (cur_w (compute_adm2_scale C oh k st)) (cur_h (compute_adm2_scale C oh k st))"
  "cm_r (compute_adm2_scale C oh k st) =
     adm_cm (csf_r (compute_adm2_scale C oh k st)) (cm_r st) (mta (compute_adm2_scale C oh k st))
       (cur_w (compute_adm2_scale C oh k st)) (cur_h (compute_adm2_scale C oh k st))"
  "curr_ref_scale (compute_adm2_scale C oh k st) =
     adm_buffer_copy (band_a (ref_dwt2 (compute_adm2_scale C oh k st))) (ref_scale st)
       (cur_w (compute_adm2_scale C oh k st)) (cur_h (compute_adm2_scale C oh k st))"
  "curr_main_scale (compute_adm2_scale C oh k st) =
     adm_buffer_copy (band_a (main_dwt2 (compute_adm2_scale C oh k st))) (main_scale st)
       (cur_w (compute_adm2_scale C oh k st)) (cur_h (compute_adm2_scale C oh k st))"
  by (simp_all add: compute_adm2_scale_def Let_def)

lemma compute_adm2_scale_num_den:
  "scores (compute_adm2_scale C oh k st) (2 * k) =
     0 + adm_sum_cube (band_h (cm_r (compute_adm2_scale C oh k st)))
           (cur_w (compute_adm2_scale C oh k st)) (cur_h (compute_adm2_scale C oh k st))
           (ADM_BORDER_FACTOR C)
       + adm_sum_cube (band_v (cm_r (compute_adm2_scale C oh k st)))
           (cur_w (compute_adm2_scale C oh k st)) (cur_h (compute_adm2_scale C oh k st))
           (ADM_BORDER_FACTOR C)
       + adm_sum_cube (band_d (cm_r (compute_adm2_scale C oh k st)))
           (cur_w (compute_adm2_scale C oh k st)) (cur_h (compute_adm2_scale C oh k st))
           (ADM_BORDER_FACTOR C)"
  "scores (compute_adm2_scale C oh k st) (2 * k + 1) =
     0 + adm_sum_cube (band_h (csf_o (compute_adm2_scale C oh k st)))
           (cur_w (compute_adm2_scale C oh k st)) (cur_h (compute_adm2_scale C oh k st))
           (ADM_BORDER_FACTOR C)
       + adm_sum_cube (band_v (csf_o (compute_adm2_scale C oh k st)))
           (cur_w (compute_adm2_scale C oh k st)) (cur_h (compute_adm2_scale C oh k st))
           (ADM_BORDER_FACTOR C)
       + adm_sum_cube (band_d (csf_o (compute_adm2_scale C oh k st)))
           (cur_w (compute_adm2_scale C oh k st)) (cur_h (compute_adm2_scale C oh k st))
           (ADM_BORDER_FACTOR C)"
  by (simp_all add: compute_adm2_scale_def Let_def)

lemma insideI: "0 \<le> i \<Longrightarrow> i < h \<Longrightarrow> 0 \<le> j \<Longrightarrow> j < w \<Longrightarrow> inside w h i j"
  by (simp add: inside_def)

lemma agree_refl: "agree w h p p"
  by (simp add: agree_def)

lemma agreeD: "agree w h p q \<Longrightarrow> inside w h i j \<Longrightarrow> p i j = q i j"
  by (simp add: agree_def)

text \<open>For a plane of at least two rows and columns and filters of four taps, the
  transform reads only pixels of the plane: planes that agree there have the same
  transform, and a zero plane has a zero transform.\<close>

lemma dwt2_taps_cong:
  assumes "\<And>k. 0 \<le> k \<Longrightarrow> k < len \<Longrightarrow> f (mirror n (2 * c - 1 + k)) = g (mirror n (2 * c - 1 + k))"
  shows "dwt2_taps len filt f n c = dwt2_taps len filt g n c"
  unfolding dwt2_taps_def by (rule sum.cong) (simp_all add: assms)

lemma dwt2_temp_cong:
  assumes "2 \<le> h" "0 \<le> i" "i < (h + 1) div 2" "0 \<le> j" "j < w" "agree w h src src'"
  shows "dwt2_temp 4 filt src t w h i j = dwt2_temp 4 filt src' t' w h i j"
proof -
  have "dwt2_taps 4 filt (\<lambda>r. src r j) h i = dwt2_taps 4 filt (\<lambda>r. src' r j) h i"
  proof (rule dwt2_taps_cong)
    fix k :: int assume k: "0 \<le> k" "k < 4"
    have "inside w h (mirror h (2 * i - 1 + k)) j"
      using mirror_dwt2_range [OF assms(1) assms(2) assms(3) k] assms(4,5)
      by (simp add: inside_def)
    with assms(6) show "src (mirror h (2 * i - 1 + k)) j = src' (mirror h (2 * i - 1 + k)) j"
      by (rule agreeD)
  qed
  with assms(4,5) show ?thesis by (simp add: dwt2_temp_def)
qed

lemma dwt2_spec_cong:
  assumes len: "length (dwt2_db2_coeffs_lo C) = 4"
    and dims: "2 \<le> w" "2 \<le> h"
    and ij: "inside ((w + 1) div 2) ((h + 1) div 2) i j"
    and src: "agree w h src src'"
  shows "dwt2_spec C src t1 t2 w h i j = dwt2_spec C src' t1' t2' w h i j"
proof -
  from ij have i: "0 \<le> i" "i < (h + 1) div 2" and j: "0 \<le> j" "j < (w + 1) div 2"
    by (simp_all add: inside_def)
  have taps: "dwt2_taps 4 f (dwt2_temp 4 f' src t w h i) w j =
              dwt2_taps 4 f (dwt2_temp 4 f' src' t' w h i) w j" for f f' t t'
  proof (rule dwt2_taps_cong)
    fix k :: int assume k: "0 \<le> k" "k < 4"
    from mirror_dwt2_range [OF dims(1) j k]
    show "dwt2_temp 4 f' src t w h i (mirror w (2 * j - 1 + k)) =
          dwt2_temp 4 f' src' t' w h i (mirror w (2 * j - 1 + k))"
      by (intro dwt2_temp_cong dims i src) simp_all
  qed
  show ?thesis
    by (simp add: dwt2_spec_def Let_def len taps [of _ _ t1 t1'] taps [of _ _ t2 t2'])
qed

lemma dwt2_taps_zero: "dwt2_taps len filt (\<lambda>_. 0) n c = 0"
  by (simp add: dwt2_taps_def)

lemma dwt2_spec_zero:
  assumes len: "length (dwt2_db2_coeffs_lo C) = 4"
    and dims: "2 \<le> w" "2 \<le> h"
    and ij: "inside ((w + 1) div 2) ((h + 1) div 2) i j"
    and src: "agree w h src (\<lambda>i j. 0)"
  shows "dwt2_spec C src t1 t2 w h i j = (0, 0, 0, 0)"
proof -
  have "dwt2_spec C src t1 t2 w h i j = dwt2_spec C (\<lambda>i j. 0) (\<lambda>_. 0) (\<lambda>_. 0) w h i j"
    by (rule dwt2_spec_cong [OF len dims ij src])
  also have "\<dots> = (0, 0, 0, 0)"
  proof -
    have "dwt2_temp len filt (\<lambda>i j. 0) (\<lambda>_. 0) w h i = (\<lambda>_. 0)" for len filt
      by (rule ext) (simp add: dwt2_temp_def dwt2_taps_zero)
    then show ?thesis by (simp add: dwt2_spec_def Let_def dwt2_taps_zero)
  qed
  finally show ?thesis .
qed

text \<open>The angular test passes when the distorted coefficients are the reference
  coefficients, and when the reference coefficients are zero; where it passes, the
  restored coefficients are the distorted ones and the impairment is zero.\<close>

lemma cos_1deg_sq_le_1: "cos (1 * pi / 180) * cos (1 * pi / 180) \<le> (1::real)"
proof -
  have "\<bar>cos (1 * pi / 180 :: real)\<bar> \<le> 1" by (rule abs_cos_le_one)
  then have "\<bar>cos (1 * pi / 180 :: real)\<bar> * \<bar>cos (1 * pi / 180 :: real)\<bar> \<le> 1 * 1"
    by (intro mult_mono) simp_all
  then show ?thesis by (simp add: abs_mult_self_eq)
qed

lemma angle_flag_same: "angle_flag oh ov oh ov"
proof -
  let ?m = "oh * oh + ov * ov"
  have m: "0 \<le> ?m" by simp
  have mm: "0 \<le> ?m * ?m" by simp
  have "(cos (1 * pi / 180) * cos (1 * pi / 180)) * (?m * ?m) \<le> 1 * (?m * ?m)"
    using cos_1deg_sq_le_1 mm by (rule mult_right_mono)
  with m show ?thesis by (simp add: angle_flag_def Let_def mult.assoc)
qed

lemma angle_flag_zero_ref: "angle_flag 0 0 th tv"
  by (simp add: angle_flag_def)

lemma adm_decouple_aligned:
  assumes "inside w h i j"
    and "angle_flag (band_h ref i j) (band_v ref i j) (band_h main i j) (band_v main i j)"
  shows "hvd (fst (adm_decouple C ref main r a w h)) i j = hvd main i j"
    and "hvd (snd (adm_decouple C ref main r a w h)) i j = (0, 0, 0)"
  using adm_decouple_view [of C ref main r a w h i j] assms
  by (simp_all add: decouple_view_def decouple_px_def Let_def hvd_def inside_def)

lemma adm_csf_inside:
  assumes "inside w h i j"
  shows "hvd (adm_csf C src dst oh k w h) i j =
     (adm_csf_rfactor C k ! 0 * band_h src i j, adm_csf_rfactor C k ! 1 * band_v src i j,
      adm_csf_rfactor C k ! 2 * band_d src i j)"
  using assms by (simp add: adm_csf_px inside_def)

text \<open>The 3 \<times> 3 filter reads only pixels of the band, so the threshold of a zero band
  is zero.\<close>

lemma mirror_cm_range:
  assumes "0 \<le> i" "i < n" "-1 \<le> d" "d \<le> 1"
  shows "0 \<le> mirror n (i + d) \<and> mirror n (i + d) < n"
  using assms by (auto simp: mirror_def Let_def)

lemma cm_filter3x3_zero:
  assumes "inside w h i j" and "\<And>i j. inside w h i j \<Longrightarrow> p i j = 0"
  shows "cm_filter3x3 p w h i j = 0"
proof -
  have "p (mirror h (i + di)) (mirror w (j + dj)) = 0"
    if "di \<in> {-1..1}" "dj \<in> {-1..1}" for di dj
    using mirror_cm_range [of i h di] mirror_cm_range [of j w dj] assms(1) that
    by (intro assms(2)) (simp add: inside_def)
  then show ?thesis by (simp add: cm_filter3x3_def)
qed

lemma adm_cm_thresh_zero:
  assumes "inside w h i j" and "\<And>i j. inside w h i j \<Longrightarrow> hvd src i j = (0, 0, 0)"
  shows "adm_cm_thresh src dst w h i j = 0"
proof -
  have "band_h src i j = 0 \<and> band_v src i j = 0 \<and> band_d src i j = 0" if "inside w h i j" for i j
    using assms(2) [OF that] by (simp add: hvd_def)
  then have "cm_thresh_spec src w h i j = 0"
    using assms(1) by (simp add: cm_thresh_spec_def cm_filter3x3_zero)
  with assms(1) show ?thesis
    by (simp add: adm_cm_thresh_px inside_def)
qed

text \<open>For a border factor that is not negative the pooled region lies inside the band,
  so \<^verbatim>\<open>adm_sum_cube\<close> depends on the absolute values of its pixels alone.\<close>

lemma c_trunc_nonneg: "- 1 < x \<Longrightarrow> 0 \<le> c_trunc x"
  by (auto simp: c_trunc_def)

lemma pool_edge_nonneg:
  assumes "0 \<le> b" "0 \<le> n"
  shows "0 \<le> c_trunc (real_of_int n * b - 1 / 2)"
proof (rule c_trunc_nonneg)
  have "0 \<le> real_of_int n * b" using assms by simp
  then show "- 1 < real_of_int n * b - 1 / 2" by simp
qed

lemma pool_sum_cong:
  assumes "0 \<le> b" "0 \<le> w" "0 \<le> h" and "\<And>i j. inside w h i j \<Longrightarrow> \<bar>x i j\<bar> = \<bar>y i j\<bar>"
  shows "pool_sum x w h b = pool_sum y w h b"
proof -
  define left where "left = c_trunc (real_of_int w * b - 1 / 2)"
  define top where "top = c_trunc (real_of_int h * b - 1 / 2)"
  have l: "0 \<le> left" unfolding left_def using assms(1,2) by (rule pool_edge_nonneg)
  have t: "0 \<le> top" unfolding top_def using assms(1,3) by (rule pool_edge_nonneg)
  have "(\<Sum>i = top..<h - top. \<Sum>j = left..<w - left. \<bar>x i j\<bar> ^ 3) =
        (\<Sum>i = top..<h - top. \<Sum>j = left..<w - left. \<bar>y i j\<bar> ^ 3)"
  proof (intro sum.cong refl)
    fix i j assume "i \<in> {top..<h - top}" "j \<in> {left..<w - left}"
    with l t have "inside w h i j" by (simp add: inside_def)
    then show "\<bar>x i j\<bar> ^ 3 = \<bar>y i j\<bar> ^ 3" by (simp add: assms(4))
  qed
  then show ?thesis by (simp add: pool_sum_def Let_def left_def top_def)
qed

lemma adm_sum_cube_cong:
  assumes "0 \<le> b" "0 \<le> w" "0 \<le> h" and "\<And>i j. inside w h i j \<Longrightarrow> \<bar>x i j\<bar> = \<bar>y i j\<bar>"
  shows "adm_sum_cube x w h b = adm_sum_cube y w h b"
  by (simp add: adm_sum_cube_pool pool_sum_cong [OF assms])

lemma adm_sum_cube_ge: "pool_stabilizer w h b \<le> adm_sum_cube x w h b"
  by (simp add: adm_sum_cube_pool)

lemma pool_sum_zero: "(\<And>i j. x i j = 0) \<Longrightarrow> pool_sum x w h b = 0"
  by (simp add: pool_sum_def)

text \<open>The copy of the approximation band into the working plane of the next scale.\<close>

lemma adm_buffer_copy_px:
  "adm_buffer_copy src dst w h i j = (if inside w h i j then src i j else dst i j)"
proof -
  have "adm_buffer_copy src dst w h i =
      (if 0 \<le> i \<and> i < h then (\<lambda>old j. if 0 \<le> j \<and> j < w then src i j else old j) (dst i)
       else dst i)"
    unfolding adm_buffer_copy_def
    by (rule for_loop_point [where Inv = "\<lambda>_. True" and g = "\<lambda>t. t"]) simp_all
  then show ?thesis by (simp add: inside_def)
qed

lemma hvd_eq_iff:
  "hvd b i j = (x, y, z) \<longleftrightarrow> band_h b i j = x \<and> band_v b i j = y \<and> band_d b i j = z"
  by (auto simp: hvd_def)

lemma avhd_hvd: "avhd b i j = avhd b' i j \<Longrightarrow> hvd b i j = hvd b' i j"
  by (simp add: avhd_def hvd_def)

text \<open>A scale at which the angular test passes at every pixel.\<close>

lemma scale_aligned:
  assumes st': "st' = compute_adm2_scale C oh k st"
    and al: "\<And>i j. inside (cur_w st') (cur_h st') i j \<Longrightarrow>
               angle_flag (band_h (ref_dwt2 st') i j) (band_v (ref_dwt2 st') i j)
                 (band_h (main_dwt2 st') i j) (band_v (main_dwt2 st') i j)"
    and ij: "inside (cur_w st') (cur_h st') i j"
  shows "hvd (decouple_r st') i j = hvd (main_dwt2 st') i j"
    and "hvd (decouple_a st') i j = (0, 0, 0)"
    and "mta st' i j = 0"
    and "hvd (cm_r st') i j =
           (\<bar>adm_csf_rfactor C k ! 0 * band_h (main_dwt2 st') i j\<bar>,
            \<bar>adm_csf_rfactor C k ! 1 * band_v (main_dwt2 st') i j\<bar>,
            \<bar>adm_csf_rfactor C k ! 2 * band_d (main_dwt2 st') i j\<bar>)"
proof -
  have r: "hvd (decouple_r st') x y = hvd (main_dwt2 st') x y"
    and a: "hvd (decouple_a st') x y = (0, 0, 0)"
    if "inside (cur_w st') (cur_h st') x y" for x y
    using adm_decouple_aligned [OF that al [OF that], of C "decouple_r st" "decouple_a st"]
    by (simp_all add: st' compute_adm2_scale_bufs(1,2) [symmetric])
  show "hvd (decouple_r st') i j = hvd (main_dwt2 st') i j" using r ij .
  show "hvd (decouple_a st') i j = (0, 0, 0)" using a ij .
  have ca: "hvd (csf_a st') x y = (0, 0, 0)" if "inside (cur_w st') (cur_h st') x y" for x y
    using adm_csf_inside [OF that, of C "decouple_a st'" "csf_a st" oh k] a [OF that]
    by (simp add: st' compute_adm2_scale_bufs(5) [symmetric] hvd_eq_iff)
  show m: "mta st' i j = 0"
    using adm_cm_thresh_zero [OF ij ca, of "mta st"]
    by (simp add: st' compute_adm2_scale_bufs(6) [symmetric])
  have cr: "hvd (csf_r st') i j =
      (adm_csf_rfactor C k ! 0 * band_h (main_dwt2 st') i j,
       adm_csf_rfactor C k ! 1 * band_v (main_dwt2 st') i j,
       adm_csf_rfactor C k ! 2 * band_d (main_dwt2 st') i j)"
    using adm_csf_inside [OF ij, of C "decouple_r st'" "csf_r st" oh k] r [OF ij]
    by (simp add: st' compute_adm2_scale_bufs(4) [symmetric] hvd_def)
  have "hvd (cm_r st') i j =
      (max 0 (\<bar>band_h (csf_r st') i j\<bar> - mta st' i j),
       max 0 (\<bar>band_v (csf_r st') i j\<bar> - mta st' i j),
       max 0 (\<bar>band_d (csf_r st') i j\<bar> - mta st' i j))"
    using adm_cm_hvd [of "csf_r st'" "cm_r st" "mta st'" "cur_w st'" "cur_h st'" i j] ij
    by (simp add: st' compute_adm2_scale_bufs(7) [symmetric] inside_def)
  with cr m show "hvd (cm_r st') i j =
           (\<bar>adm_csf_rfactor C k ! 0 * band_h (main_dwt2 st') i j\<bar>,
            \<bar>adm_csf_rfactor C k ! 1 * band_v (main_dwt2 st') i j\<bar>,
            \<bar>adm_csf_rfactor C k ! 2 * band_d (main_dwt2 st') i j\<bar>)"
    by (simp add: hvd_eq_iff)
qed

text \<open>The per-scale denominator pools the weighted reference coefficients; at an aligned
  scale the numerator pools the weighted distorted coefficients.\<close>

lemma scale_den_pool:
  assumes st': "st' = compute_adm2_scale C oh k st"
    and b: "0 \<le> ADM_BORDER_FACTOR C" and dims: "0 \<le> cur_w st'" "0 \<le> cur_h st'"
  shows "scores st' (2 * k + 1) =
     0 + adm_sum_cube (\<lambda>i j. adm_csf_rfactor C k ! 0 * band_h (ref_dwt2 st') i j)
           (cur_w st') (cur_h st') (ADM_BORDER_FACTOR C)
       + adm_sum_cube (\<lambda>i j. adm_csf_rfactor C k ! 1 * band_v (ref_dwt2 st') i j)
           (cur_w st') (cur_h st') (ADM_BORDER_FACTOR C)
       + adm_sum_cube (\<lambda>i j. adm_csf_rfactor C k ! 2 * band_d (ref_dwt2 st') i j)
           (cur_w st') (cur_h st') (ADM_BORDER_FACTOR C)"
proof -
  have co: "hvd (csf_o st') i j =
      (adm_csf_rfactor C k ! 0 * band_h (ref_dwt2 st') i j,
       adm_csf_rfactor C k ! 1 * band_v (ref_dwt2 st') i j,
       adm_csf_rfactor C k ! 2 * band_d (ref_dwt2 st') i j)"
    if "inside (cur_w st') (cur_h st') i j" for i j
    using adm_csf_inside [OF that, of C "ref_dwt2 st'" "csf_o st" oh k]
    by (simp add: st' compute_adm2_scale_bufs(3) [symmetric])
  have "adm_sum_cube (band_h (csf_o st')) (cur_w st') (cur_h st') (ADM_BORDER_FACTOR C) =
        adm_sum_cube (\<lambda>i j. adm_csf_rfactor C k ! 0 * band_h (ref_dwt2 st') i j)
           (cur_w st') (cur_h st') (ADM_BORDER_FACTOR C)"
    by (rule adm_sum_cube_cong [OF b dims]) (use co in \<open>simp add: hvd_eq_iff\<close>)
  moreover have "adm_sum_cube (band_v (csf_o st')) (cur_w st') (cur_h st') (ADM_BORDER_FACTOR C) =
        adm_sum_cube (\<lambda>i j. adm_csf_rfactor C k ! 1 * band_v (ref_dwt2 st') i j)
           (cur_w st') (cur_h st') (ADM_BORDER_FACTOR C)"
    by (rule adm_sum_cube_cong [OF b dims]) (use co in \<open>simp add: hvd_eq_iff\<close>)
  moreover have "adm_sum_cube (band_d (csf_o st')) (cur_w st') (cur_h st') (ADM_BORDER_FACTOR C) =
        adm_sum_cube (\<lambda>i j. adm_csf_rfactor C k ! 2 * band_d (ref_dwt2 st') i j)
           (cur_w st') (cur_h st') (ADM_BORDER_FACTOR C)"
    by (rule adm_sum_cube_cong [OF b dims]) (use co in \<open>simp add: hvd_eq_iff\<close>)
  ultimately show ?thesis
    using compute_adm2_scale_num_den(2) [of C oh k st] by (simp add: st')
qed

lemma scale_num_pool:
  assumes st': "st' = compute_adm2_scale C oh k st"
    and al: "\<And>i j. inside (cur_w st') (cur_h st') i j \<Longrightarrow>
               angle_flag (band_h (ref_dwt2 st') i j) (band_v (ref_dwt2 st') i j)
                 (band_h (main_dwt2 st') i j) (band_v (main_dwt2 st') i j)"
    and b: "0 \<le> ADM_BORDER_FACTOR C" and dims: "0 \<le> cur_w st'" "0 \<le> cur_h st'"
  shows "scores st' (2 * k) =
     0 + adm_sum_cube (\<lambda>i j. adm_csf_rfactor C k ! 0 * band_h (main_dwt2 st') i j)
           (cur_w st') (cur_h st') (ADM_BORDER_FACTOR C)
       + adm_sum_cube (\<lambda>i j. adm_csf_rfactor C k ! 1 * band_v (main_dwt2 st') i j)
           (cur_w st') (cur_h st') (ADM_BORDER_FACTOR C)
       + adm_sum_cube (\<lambda>i j. adm_csf_rfactor C k ! 2 * band_d (main_dwt2 st') i j)
           (cur_w st') (cur_h st') (ADM_BORDER_FACTOR C)"
proof -
  note cm = scale_aligned(4) [OF st' al]
  have "adm_sum_cube (band_h (cm_r st')) (cur_w st') (cur_h st') (ADM_BORDER_FACTOR C) =
        adm_sum_cube (\<lambda>i j. adm_csf_rfactor C k ! 0 * band_h (main_dwt2 st') i j)
           (cur_w st') (cur_h st') (ADM_BORDER_FACTOR C)"
    by (rule adm_sum_cube_cong [OF b dims]) (use cm in \<open>simp add: hvd_eq_iff\<close>)
  moreover have "adm_sum_cube (band_v (cm_r st')) (cur_w st') (cur_h st') (ADM_BORDER_FACTOR C) =
        adm_sum_cube (\<lambda>i j. adm_csf_rfactor C k ! 1 * band_v (main_dwt2 st') i j)
           (cur_w st') (cur_h st') (ADM_BORDER_FACTOR C)"
    by (rule adm_sum_cube_cong [OF b dims]) (use cm in \<open>simp add: hvd_eq_iff\<close>)
  moreover have "adm_sum_cube (band_d (cm_r st')) (cur_w st') (cur_h st') (ADM_BORDER_FACTOR C) =
        adm_sum_cube (\<lambda>i j. adm_csf_rfactor C k ! 2 * band_d (main_dwt2 st') i j)
           (cur_w st') (cur_h st') (ADM_BORDER_FACTOR C)"
    by (rule adm_sum_cube_cong [OF b dims]) (use cm in \<open>simp add: hvd_eq_iff\<close>)
  ultimately show ?thesis
    using compute_adm2_scale_num_den(1) [of C oh k st] by (simp add: st')
qed

text \<open>The transform of a scale, at the pixels of its output.\<close>

lemma scale_dwt_inside:
  assumes st': "st' = compute_adm2_scale C oh k st"
    and ij: "inside (cur_w st') (cur_h st') i j"
  shows "avhd (ref_dwt2 st') i j =
           dwt2_spec C (curr_ref_scale st) (temp_lo st) (temp_hi st) (cur_w st) (cur_h st) i j"
    and "\<exists>t1 t2. avhd (main_dwt2 st') i j =
           dwt2_spec C (curr_main_scale st) t1 t2 (cur_w st) (cur_h st) i j"
proof -
  from ij have ij': "0 \<le> i \<and> i < (cur_h st + 1) div 2 \<and> 0 \<le> j \<and> j < (cur_w st + 1) div 2"
    by (simp add: st' compute_adm2_scale_dims inside_def)
  show "avhd (ref_dwt2 st') i j =
           dwt2_spec C (curr_ref_scale st) (temp_lo st) (temp_hi st) (cur_w st) (cur_h st) i j"
    using ij' by (simp add: st' compute_adm2_scale_dwt(1) adm_dwt2_avhd)
  from compute_adm2_scale_dwt(2) [of C oh k st] obtain t1 t2 where
    "main_dwt2 st' = dst_band (adm_dwt2 C (curr_main_scale st) (main_dwt2 st) (cur_w st)
       (cur_h st) t1 t2)"
    unfolding st' by blast
  then have "avhd (main_dwt2 st') i j =
           dwt2_spec C (curr_main_scale st) t1 t2 (cur_w st) (cur_h st) i j"
    using ij' by (simp add: adm_dwt2_avhd)
  then show "\<exists>t1 t2. avhd (main_dwt2 st') i j =
           dwt2_spec C (curr_main_scale st) t1 t2 (cur_w st) (cur_h st) i j"
    by blast
qed

lemma scale_next_planes:
  assumes st': "st' = compute_adm2_scale C oh k st"
    and ij: "inside (cur_w st') (cur_h st') i j"
  shows "curr_ref_scale st' i j = band_a (ref_dwt2 st') i j"
    and "curr_main_scale st' i j = band_a (main_dwt2 st') i j"
  using ij by (simp_all add: st' compute_adm2_scale_bufs(8,9) adm_buffer_copy_px)

subsection \<open>compute\_adm2 on identical planes\<close>

lemma scale_identical:
  assumes st': "st' = compute_adm2_scale C oh k st"
    and len: "length (dwt2_db2_coeffs_lo C) = 4"
    and b: "0 \<le> ADM_BORDER_FACTOR C"
    and dims: "2 \<le> cur_w st" "2 \<le> cur_h st"
    and ag: "agree (cur_w st) (cur_h st) (curr_ref_scale st) (curr_main_scale st)"
  shows "\<And>i j. inside (cur_w st') (cur_h st') i j \<Longrightarrow>
           avhd (main_dwt2 st') i j = avhd (ref_dwt2 st') i j"
    and "scores st' (2 * k) = scores st' (2 * k + 1)"
    and "agree (cur_w st') (cur_h st') (curr_ref_scale st') (curr_main_scale st')"
proof -
  have same: "avhd (main_dwt2 st') i j = avhd (ref_dwt2 st') i j"
    if ij: "inside (cur_w st') (cur_h st') i j" for i j
  proof -
    from scale_dwt_inside(2) [OF st' ij] obtain t1 t2 where
      m: "avhd (main_dwt2 st') i j =
            dwt2_spec C (curr_main_scale st) t1 t2 (cur_w st) (cur_h st) i j"
      by blast
    from ij have ij': "inside ((cur_w st + 1) div 2) ((cur_h st + 1) div 2) i j"
      by (simp add: st' compute_adm2_scale_dims)
    have "dwt2_spec C (curr_ref_scale st) (temp_lo st) (temp_hi st) (cur_w st) (cur_h st) i j =
          dwt2_spec C (curr_main_scale st) t1 t2 (cur_w st) (cur_h st) i j"
      by (rule dwt2_spec_cong [OF len dims ij' ag])
    with m scale_dwt_inside(1) [OF st' ij] show ?thesis by simp
  qed
  then show "\<And>i j. inside (cur_w st') (cur_h st') i j \<Longrightarrow>
           avhd (main_dwt2 st') i j = avhd (ref_dwt2 st') i j" .
  have hvd_same: "band_h (main_dwt2 st') i j = band_h (ref_dwt2 st') i j \<and>
                  band_v (main_dwt2 st') i j = band_v (ref_dwt2 st') i j \<and>
                  band_d (main_dwt2 st') i j = band_d (ref_dwt2 st') i j \<and>
                  band_a (main_dwt2 st') i j = band_a (ref_dwt2 st') i j"
    if "inside (cur_w st') (cur_h st') i j" for i j
    using same [OF that] by (simp add: avhd_def)
  have al: "angle_flag (band_h (ref_dwt2 st') i j) (band_v (ref_dwt2 st') i j)
              (band_h (main_dwt2 st') i j) (band_v (main_dwt2 st') i j)"
    if "inside (cur_w st') (cur_h st') i j" for i j
    using hvd_same [OF that] by (simp add: angle_flag_same)
  have d': "0 \<le> cur_w st'" "0 \<le> cur_h st'"
    using dims by (simp_all add: st' compute_adm2_scale_dims)
  have "adm_sum_cube (\<lambda>i j. adm_csf_rfactor C k ! n * band_h (main_dwt2 st') i j)
           (cur_w st') (cur_h st') (ADM_BORDER_FACTOR C) =
        adm_sum_cube (\<lambda>i j. adm_csf_rfactor C k ! n * band_h (ref_dwt2 st') i j)
           (cur_w st') (cur_h st') (ADM_BORDER_FACTOR C)" for n
    by (rule adm_sum_cube_cong [OF b d']) (simp add: hvd_same)
  moreover have "adm_sum_cube (\<lambda>i j. adm_csf_rfactor C k ! n * band_v (main_dwt2 st') i j)
           (cur_w st') (cur_h st') (ADM_BORDER_FACTOR C) =
        adm_sum_cube (\<lambda>i j. adm_csf_rfactor C k ! n * band_v (ref_dwt2 st') i j)
           (cur_w st') (cur_h st') (ADM_BORDER_FACTOR C)" for n
    by (rule adm_sum_cube_cong [OF b d']) (simp add: hvd_same)
  moreover have "adm_sum_cube (\<lambda>i j. adm_csf_rfactor C k ! n * band_d (main_dwt2 st') i j)
           (cur_w st') (cur_h st') (ADM_BORDER_FACTOR C) =
        adm_sum_cube (\<lambda>i j. adm_csf_rfactor C k ! n * band_d (ref_dwt2 st') i j)
           (cur_w st') (cur_h st') (ADM_BORDER_FACTOR C)" for n
    by (rule adm_sum_cube_cong [OF b d']) (simp add: hvd_same)
  ultimately show "scores st' (2 * k) = scores st' (2 * k + 1)"
    by (simp add: scale_num_pool [OF st' al b d'] scale_den_pool [OF st' b d'])
  show "agree (cur_w st') (cur_h st') (curr_ref_scale st') (curr_main_scale st')"
    unfolding agree_def using scale_next_planes [OF st'] hvd_same by simp
qed

text \<open>The invariant of the scale loop on identical planes.\<close>

lemma min_dim_step: "n < 4 \<Longrightarrow> min_dim n \<le> x \<Longrightarrow> min_dim (Suc n) \<le> (x + 1) div 2"
  by (auto simp: min_dim_def split: if_splits)

lemma min_dim_ge2: "n < 4 \<Longrightarrow> min_dim n \<le> x \<Longrightarrow> 2 \<le> x"
  by (auto simp: min_dim_def split: if_splits)

lemma scale_state_Suc:
  "scale_state C ref main w h bufs (int (Suc n)) =
     compute_adm2_scale C h (int n) (scale_state C ref main w h bufs (int n))"
  using scale_state_step [of "int n" C ref main w h bufs] by (simp add: add.commute)

lemma identical_invariant:
  assumes len: "length (dwt2_db2_coeffs_lo C) = 4"
    and b: "0 \<le> ADM_BORDER_FACTOR C"
    and dims: "9 \<le> w" "9 \<le> h"
    and ag: "agree w h ref main"
    and n: "n \<le> 4"
  shows "min_dim n \<le> cur_w (scale_state C ref main w h bufs (int n)) \<and>
         min_dim n \<le> cur_h (scale_state C ref main w h bufs (int n)) \<and>
         agree (cur_w (scale_state C ref main w h bufs (int n)))
               (cur_h (scale_state C ref main w h bufs (int n)))
               (curr_ref_scale (scale_state C ref main w h bufs (int n)))
               (curr_main_scale (scale_state C ref main w h bufs (int n))) \<and>
         num (scale_state C ref main w h bufs (int n)) = den (scale_state C ref main w h bufs (int n))"
  using n
proof (induction n)
  case 0
  show ?case using dims ag
    by (simp add: scale_state_0 compute_adm2_init_def min_dim_def)
next
  case (Suc n)
  define st where "st = scale_state C ref main w h bufs (int n)"
  define st' where "st' = scale_state C ref main w h bufs (int (Suc n))"
  have st': "st' = compute_adm2_scale C h (int n) st"
    by (simp only: st'_def st_def scale_state_Suc)
  from Suc have n4: "n < 4" by simp
  from Suc have IH: "min_dim n \<le> cur_w st" "min_dim n \<le> cur_h st"
    "agree (cur_w st) (cur_h st) (curr_ref_scale st) (curr_main_scale st)" "num st = den st"
    by (simp_all add: st_def)
  have d2: "2 \<le> cur_w st" "2 \<le> cur_h st"
    using min_dim_ge2 [OF n4] IH(1,2) by blast+
  note step = scale_identical [OF st' len b d2 IH(3)]
  have "min_dim (Suc n) \<le> cur_w st'" "min_dim (Suc n) \<le> cur_h st'"
    using min_dim_step [OF n4 IH(1)] min_dim_step [OF n4 IH(2)]
    by (simp_all add: st' compute_adm2_scale_dims)
  moreover have "num st' = den st'"
    using compute_adm2_scale_num [of C h "int n" st] compute_adm2_scale_den [of C h "int n" st]
      step(2) IH(4) by (simp add: st')
  ultimately show ?case using step(3) unfolding st'_def by blast
qed

text \<open>
  C5. When the distorted plane equals the reference plane on the \<open>w \<times> h\<close> frame, with
  \<open>w\<close> and \<open>h\<close> at least 9 (so that each of the four halvings leaves at least two rows and
  columns to the transform), then at every scale \<open>k = 1, \<dots>, 4\<close> and every pixel of its bands
  the angular test passes, the restored coefficients are the distorted ones, the
  impairment coefficients are zero and the masking threshold is zero; and the final score
  is 1. (The filters have four taps and the border factor is not negative.)
\<close>

theorem degenerate_score:
  assumes len: "length (dwt2_db2_coeffs_lo C) = 4"
    and b: "0 \<le> ADM_BORDER_FACTOR C"
    and dims: "9 \<le> w" "9 \<le> h"
    and ag: "agree w h ref main"
  shows "score (compute_adm2 C ref main w h bufs) = 1 \<and>
    (\<forall>k i j. 1 \<le> k \<and> k \<le> 4 \<and>
        inside (cur_w (scale_state C ref main w h bufs k))
               (cur_h (scale_state C ref main w h bufs k)) i j \<longrightarrow>
      angle_flag (band_h (ref_dwt2 (scale_state C ref main w h bufs k)) i j)
                 (band_v (ref_dwt2 (scale_state C ref main w h bufs k)) i j)
                 (band_h (main_dwt2 (scale_state C ref main w h bufs k)) i j)
                 (band_v (main_dwt2 (scale_state C ref main w h bufs k)) i j) \<and>
      hvd (decouple_r (scale_state C ref main w h bufs k)) i j =
        hvd (main_dwt2 (scale_state C ref main w h bufs k)) i j \<and>
      hvd (decouple_a (scale_state C ref main w h bufs k)) i j = (0, 0, 0) \<and>
      mta (scale_state C ref main w h bufs k) i j = 0)"
proof (intro conjI allI impI)
  have "num (scale_state C ref main w h bufs 4) = den (scale_state C ref main w h bufs 4)"
    using identical_invariant [OF len b dims ag, of 4 bufs] by simp
  then show "score (compute_adm2 C ref main w h bufs) = 1"
    by (simp add: compute_adm2_fields)
next
  fix k i j
  assume k: "1 \<le> k \<and> k \<le> 4 \<and>
        inside (cur_w (scale_state C ref main w h bufs k))
               (cur_h (scale_state C ref main w h bufs k)) i j"
  define n where "n = nat (k - 1)"
  from k have kn: "k = int (Suc n)" and n4: "n < 4" by (auto simp: n_def)
  define st where "st = scale_state C ref main w h bufs (int n)"
  define st' where "st' = scale_state C ref main w h bufs k"
  have st': "st' = compute_adm2_scale C h (int n) st"
    by (simp only: st'_def st_def kn scale_state_Suc)
  from identical_invariant [OF len b dims ag, of n bufs] n4
  have IH: "min_dim n \<le> cur_w st" "min_dim n \<le> cur_h st"
    "agree (cur_w st) (cur_h st) (curr_ref_scale st) (curr_main_scale st)"
    by (simp_all add: st_def)
  have d2: "2 \<le> cur_w st" "2 \<le> cur_h st"
    using min_dim_ge2 [OF n4] IH(1,2) by blast+
  note step = scale_identical [OF st' len b d2 IH(3)]
  have al: "angle_flag (band_h (ref_dwt2 st') x y) (band_v (ref_dwt2 st') x y)
              (band_h (main_dwt2 st') x y) (band_v (main_dwt2 st') x y)"
    if "inside (cur_w st') (cur_h st') x y" for x y
    using step(1) [OF that] by (simp add: avhd_def angle_flag_same)
  from k have ij: "inside (cur_w st') (cur_h st') i j" by (simp add: st'_def)
  show "angle_flag (band_h (ref_dwt2 (scale_state C ref main w h bufs k)) i j)
                 (band_v (ref_dwt2 (scale_state C ref main w h bufs k)) i j)
                 (band_h (main_dwt2 (scale_state C ref main w h bufs k)) i j)
                 (band_v (main_dwt2 (scale_state C ref main w h bufs k)) i j)"
    using al [OF ij] by (simp add: st'_def)
  show "hvd (decouple_r (scale_state C ref main w h bufs k)) i j =
        hvd (main_dwt2 (scale_state C ref main w h bufs k)) i j"
    using scale_aligned(1) [OF st' al ij] by (simp add: st'_def)
  show "hvd (decouple_a (scale_state C ref main w h bufs k)) i j = (0, 0, 0)"
    using scale_aligned(2) [OF st' al ij] by (simp add: st'_def)
  show "mta (scale_state C ref main w h bufs k) i j = 0"
    using scale_aligned(3) [OF st' al ij] by (simp add: st'_def)
qed

theorem degenerate_score_witness:
  "length (dwt2_db2_coeffs_lo sample_consts) = 4 \<and> 0 \<le> ADM_BORDER_FACTOR sample_consts \<and>
   (9::int) \<le> 9 \<and> agree 9 9 ramp_plane ramp_padded_plane \<and>
   score (compute_adm2 sample_consts ramp_plane ramp_padded_plane 9 9 zero_state) = 1 \<and>
   (1::int) \<le> 1 \<and> (1::int) \<le> 4 \<and>
   inside (cur_w (scale_state sample_consts ramp_plane ramp_padded_plane 9 9 zero_state 1))
          (cur_h (scale_state sample_consts ramp_plane ramp_padded_plane 9 9 zero_state 1)) 2 3 \<and>
   hvd (decouple_a (scale_state sample_consts ramp_plane ramp_padded_plane 9 9 zero_state 1)) 2 3
     = (0, 0, 0) \<and>
   mta (scale_state sample_consts ramp_plane ramp_padded_plane 9 9 zero_state 1) 2 3 = 0"
proof -
  have h: "length (dwt2_db2_coeffs_lo sample_consts) = 4" "0 \<le> ADM_BORDER_FACTOR sample_consts"
    "(9::int) \<le> 9" "agree 9 9 ramp_plane ramp_padded_plane"
    by (simp_all add: sample_consts_def agree_def ramp_padded_plane_def)
  have d: "cur_w (scale_state sample_consts ramp_plane ramp_padded_plane 9 9 zero_state 1) = 5"
    "cur_h (scale_state sample_consts ramp_plane ramp_padded_plane 9 9 zero_state 1) = 5"
    using scale_state_step [of 0 sample_consts ramp_plane ramp_padded_plane 9 9 zero_state]
    by (simp_all add: scale_state_0 compute_adm2_scale_dims compute_adm2_init_def)
  have i: "inside
     (cur_w (scale_state sample_consts ramp_plane ramp_padded_plane 9 9 zero_state 1))
     (cur_h (scale_state sample_consts ramp_plane ramp_padded_plane 9 9 zero_state 1)) 2 3"
    by (simp add: d inside_def)
  from degenerate_score [OF h(1) h(2) h(3) h(3) h(4), of zero_state] h i show ?thesis
    by simp
qed

subsection \<open>compute\_adm2 on a zero reference\<close>

lemma pool_stabilizer_nonneg: "0 \<le> pool_stabilizer w h b"
  by (simp add: pool_stabilizer_def Let_def)

lemma adm_sum_cube_zero: "adm_sum_cube (\<lambda>i j. 0) w h b = pool_stabilizer w h b"
  by (simp add: adm_sum_cube_pool pool_sum_def)

lemma scale_zero_ref:
  assumes st': "st' = compute_adm2_scale C oh k st"
    and len: "length (dwt2_db2_coeffs_lo C) = 4"
    and b: "0 \<le> ADM_BORDER_FACTOR C"
    and dims: "2 \<le> cur_w st" "2 \<le> cur_h st"
    and z: "agree (cur_w st) (cur_h st) (curr_ref_scale st) (\<lambda>i j. 0)"
  shows "\<And>i j. inside (cur_w st') (cur_h st') i j \<Longrightarrow> avhd (ref_dwt2 st') i j = (0, 0, 0, 0)"
    and "scores st' (2 * k + 1) = 3 * pool_stabilizer (cur_w st') (cur_h st') (ADM_BORDER_FACTOR C)"
    and "scores st' (2 * k) =
     0 + adm_sum_cube (\<lambda>i j. adm_csf_rfactor C k ! 0 * band_h (main_dwt2 st') i j)
           (cur_w st') (cur_h st') (ADM_BORDER_FACTOR C)
       + adm_sum_cube (\<lambda>i j. adm_csf_rfactor C k ! 1 * band_v (main_dwt2 st') i j)
           (cur_w st') (cur_h st') (ADM_BORDER_FACTOR C)
       + adm_sum_cube (\<lambda>i j. adm_csf_rfactor C k ! 2 * band_d (main_dwt2 st') i j)
           (cur_w st') (cur_h st') (ADM_BORDER_FACTOR C)"
    and "scores st' (2 * k + 1) \<le> scores st' (2 * k)"
    and "agree (cur_w st') (cur_h st') (curr_ref_scale st') (\<lambda>i j. 0)"
proof -
  have zero: "avhd (ref_dwt2 st') i j = (0, 0, 0, 0)"
    if ij: "inside (cur_w st') (cur_h st') i j" for i j
  proof -
    from ij have ij': "inside ((cur_w st + 1) div 2) ((cur_h st + 1) div 2) i j"
      by (simp add: st' compute_adm2_scale_dims)
    show ?thesis
      using scale_dwt_inside(1) [OF st' ij] dwt2_spec_zero [OF len dims ij' z] by simp
  qed
  then show "\<And>i j. inside (cur_w st') (cur_h st') i j \<Longrightarrow> avhd (ref_dwt2 st') i j = (0, 0, 0, 0)" .
  have z4: "band_h (ref_dwt2 st') i j = 0 \<and> band_v (ref_dwt2 st') i j = 0 \<and>
            band_d (ref_dwt2 st') i j = 0 \<and> band_a (ref_dwt2 st') i j = 0"
    if "inside (cur_w st') (cur_h st') i j" for i j
    using zero [OF that] by (simp add: avhd_def)
  have al: "angle_flag (band_h (ref_dwt2 st') i j) (band_v (ref_dwt2 st') i j)
              (band_h (main_dwt2 st') i j) (band_v (main_dwt2 st') i j)"
    if "inside (cur_w st') (cur_h st') i j" for i j
    using z4 [OF that] by (simp add: angle_flag_zero_ref)
  have d': "0 \<le> cur_w st'" "0 \<le> cur_h st'"
    using dims by (simp_all add: st' compute_adm2_scale_dims)
  have "adm_sum_cube (\<lambda>i j. adm_csf_rfactor C k ! n * band_h (ref_dwt2 st') i j)
           (cur_w st') (cur_h st') (ADM_BORDER_FACTOR C) =
        adm_sum_cube (\<lambda>i j. 0) (cur_w st') (cur_h st') (ADM_BORDER_FACTOR C)" for n
    by (rule adm_sum_cube_cong [OF b d']) (simp add: z4)
  moreover have "adm_sum_cube (\<lambda>i j. adm_csf_rfactor C k ! n * band_v (ref_dwt2 st') i j)
           (cur_w st') (cur_h st') (ADM_BORDER_FACTOR C) =
        adm_sum_cube (\<lambda>i j. 0) (cur_w st') (cur_h st') (ADM_BORDER_FACTOR C)" for n
    by (rule adm_sum_cube_cong [OF b d']) (simp add: z4)
  moreover have "adm_sum_cube (\<lambda>i j. adm_csf_rfactor C k ! n * band_d (ref_dwt2 st') i j)
           (cur_w st') (cur_h st') (ADM_BORDER_FACTOR C) =
        adm_sum_cube (\<lambda>i j. 0) (cur_w st') (cur_h st') (ADM_BORDER_FACTOR C)" for n
    by (rule adm_sum_cube_cong [OF b d']) (simp add: z4)
  ultimately show den: "scores st' (2 * k + 1) =
      3 * pool_stabilizer (cur_w st') (cur_h st') (ADM_BORDER_FACTOR C)"
    by (simp add: scale_den_pool [OF st' b d'] adm_sum_cube_zero)
  show nm: "scores st' (2 * k) =
     0 + adm_sum_cube (\<lambda>i j. adm_csf_rfactor C k ! 0 * band_h (main_dwt2 st') i j)
           (cur_w st') (cur_h st') (ADM_BORDER_FACTOR C)
       + adm_sum_cube (\<lambda>i j. adm_csf_rfactor C k ! 1 * band_v (main_dwt2 st') i j)
           (cur_w st') (cur_h st') (ADM_BORDER_FACTOR C)
       + adm_sum_cube (\<lambda>i j. adm_csf_rfactor C k ! 2 * band_d (main_dwt2 st') i j)
           (cur_w st') (cur_h st') (ADM_BORDER_FACTOR C)"
    by (rule scale_num_pool [OF st' al b d'])
  show "scores st' (2 * k + 1) \<le> scores st' (2 * k)"
    unfolding den nm
    using adm_sum_cube_ge [of "cur_w st'" "cur_h st'" "ADM_BORDER_FACTOR C"
        "\<lambda>i j. adm_csf_rfactor C k ! 0 * band_h (main_dwt2 st') i j"]
      adm_sum_cube_ge [of "cur_w st'" "cur_h st'" "ADM_BORDER_FACTOR C"
        "\<lambda>i j. adm_csf_rfactor C k ! 1 * band_v (main_dwt2 st') i j"]
      adm_sum_cube_ge [of "cur_w st'" "cur_h st'" "ADM_BORDER_FACTOR C"
        "\<lambda>i j. adm_csf_rfactor C k ! 2 * band_d (main_dwt2 st') i j"]
    by simp
  show "agree (cur_w st') (cur_h st') (curr_ref_scale st') (\<lambda>i j. 0)"
    unfolding agree_def using scale_next_planes(1) [OF st'] z4 by simp
qed

text \<open>The invariant of the scale loop on a zero reference.\<close>

lemma zero_ref_invariant:
  assumes len: "length (dwt2_db2_coeffs_lo C) = 4"
    and b: "0 \<le> ADM_BORDER_FACTOR C"
    and dims: "9 \<le> w" "9 \<le> h"
    and z: "agree w h ref (\<lambda>i j. 0)"
    and n: "n \<le> 4"
  shows "min_dim n \<le> cur_w (scale_state C ref main w h bufs (int n)) \<and>
         min_dim n \<le> cur_h (scale_state C ref main w h bufs (int n)) \<and>
         agree (cur_w (scale_state C ref main w h bufs (int n)))
               (cur_h (scale_state C ref main w h bufs (int n)))
               (curr_ref_scale (scale_state C ref main w h bufs (int n))) (\<lambda>i j. 0) \<and>
         0 \<le> den (scale_state C ref main w h bufs (int n)) \<and>
         den (scale_state C ref main w h bufs (int n)) \<le> num (scale_state C ref main w h bufs (int n))"
  using n
proof (induction n)
  case 0
  show ?case using dims z
    by (simp add: scale_state_0 compute_adm2_init_def min_dim_def)
next
  case (Suc n)
  define st where "st = scale_state C ref main w h bufs (int n)"
  define st' where "st' = scale_state C ref main w h bufs (int (Suc n))"
  have st': "st' = compute_adm2_scale C h (int n) st"
    by (simp only: st'_def st_def scale_state_Suc)
  from Suc have n4: "n < 4" by simp
  from Suc have IH: "min_dim n \<le> cur_w st" "min_dim n \<le> cur_h st"
    "agree (cur_w st) (cur_h st) (curr_ref_scale st) (\<lambda>i j. 0)" "0 \<le> den st" "den st \<le> num st"
    by (simp_all add: st_def)
  have d2: "2 \<le> cur_w st" "2 \<le> cur_h st"
    using min_dim_ge2 [OF n4] IH(1,2) by blast+
  note step = scale_zero_ref [OF st' len b d2 IH(3)]
  have "min_dim (Suc n) \<le> cur_w st'" "min_dim (Suc n) \<le> cur_h st'"
    using min_dim_step [OF n4 IH(1)] min_dim_step [OF n4 IH(2)]
    by (simp_all add: st' compute_adm2_scale_dims)
  moreover have "den st' \<le> num st'"
    using compute_adm2_scale_num [of C h "int n" st] compute_adm2_scale_den [of C h "int n" st]
      step(4) IH(5) by (simp add: st')
  moreover have "0 \<le> den st'"
    using compute_adm2_scale_den [of C h "int n" st] step(2) IH(4)
      pool_stabilizer_nonneg [of "cur_w st'" "cur_h st'" "ADM_BORDER_FACTOR C"]
    by (simp add: st')
  ultimately show ?case using step(5) unfolding st'_def by blast
qed

lemma scores_persist:
  assumes "n \<le> m" "x < 2 * int n"
  shows "scores (scale_state C ref main w h bufs (int m)) x =
         scores (scale_state C ref main w h bufs (int n)) x"
  using assms(1)
proof (induction m rule: dec_induct)
  case base
  show ?case by simp
next
  case (step m)
  have "scores (scale_state C ref main w h bufs (int (Suc m))) x =
        scores (scale_state C ref main w h bufs (int m)) x"
    using compute_adm2_scale_scores [of C h "int m" "scale_state C ref main w h bufs (int m)" x]
      step(1) assms(2)
    by (simp only: scale_state_Suc) (simp split: if_splits)
  with step show ?case by simp
qed

text \<open>
  C3 (as amended). When the reference plane is zero on the \<open>w \<times> h\<close> frame, with \<open>w\<close> and
  \<open>h\<close> at least 9, the per-scale denominator of each of the four scales is three times the
  additive term of \<^verbatim>\<open>adm_sum_cube\<close> for the band of that scale, whatever the pixels; the
  per-scale numerator is at least the denominator; and the final score is at least 1.
\<close>

theorem zero_reference_score:
  assumes len: "length (dwt2_db2_coeffs_lo C) = 4"
    and b: "0 \<le> ADM_BORDER_FACTOR C"
    and dims: "9 \<le> w" "9 \<le> h"
    and z: "agree w h ref (\<lambda>i j. 0)"
  shows "(\<forall>k. 0 \<le> k \<and> k < 4 \<longrightarrow>
            scores_out (compute_adm2 C ref main w h bufs) (2 * k + 1) =
              3 * pool_stabilizer (cur_w (scale_state C ref main w h bufs (k + 1)))
                    (cur_h (scale_state C ref main w h bufs (k + 1))) (ADM_BORDER_FACTOR C) \<and>
            scores_out (compute_adm2 C ref main w h bufs) (2 * k + 1) \<le>
              scores_out (compute_adm2 C ref main w h bufs) (2 * k)) \<and>
         1 \<le> score (compute_adm2 C ref main w h bufs)"
proof (intro conjI allI impI)
  fix k :: int assume k: "0 \<le> k \<and> k < 4"
  define n where "n = nat k"
  from k have kn: "k = int n" and n4: "n < 4" by (auto simp: n_def)
  define st where "st = scale_state C ref main w h bufs (int n)"
  define st' where "st' = scale_state C ref main w h bufs (int (Suc n))"
  have st': "st' = compute_adm2_scale C h (int n) st"
    by (simp only: st'_def st_def scale_state_Suc)
  from zero_ref_invariant [OF len b dims z, of n main bufs] n4
  have IH: "min_dim n \<le> cur_w st" "min_dim n \<le> cur_h st"
    "agree (cur_w st) (cur_h st) (curr_ref_scale st) (\<lambda>i j. 0)"
    by (simp_all add: st_def)
  have d2: "2 \<le> cur_w st" "2 \<le> cur_h st"
    using min_dim_ge2 [OF n4] IH(1,2) by blast+
  note step = scale_zero_ref [OF st' len b d2 IH(3)]
  have p: "scores (scale_state C ref main w h bufs (int 4)) x = scores st' x"
    if "x < 2 * int (Suc n)" for x
    unfolding st'_def using n4 that by (intro scores_persist) simp_all
  have e: "scale_state C ref main w h bufs (int n + 1) = st'"
    by (simp add: st'_def add.commute)
  show "scores_out (compute_adm2 C ref main w h bufs) (2 * k + 1) =
              3 * pool_stabilizer (cur_w (scale_state C ref main w h bufs (k + 1)))
                    (cur_h (scale_state C ref main w h bufs (k + 1))) (ADM_BORDER_FACTOR C)"
    using step(2) p [of "2 * k + 1"] by (simp add: compute_adm2_fields e kn)
  show "scores_out (compute_adm2 C ref main w h bufs) (2 * k + 1) \<le>
              scores_out (compute_adm2 C ref main w h bufs) (2 * k)"
    using step(4) p [of "2 * k + 1"] p [of "2 * k"] by (simp add: compute_adm2_fields kn)
next
  from zero_ref_invariant [OF len b dims z, of 4 main bufs]
  have nd: "0 \<le> den (scale_state C ref main w h bufs 4)"
    "den (scale_state C ref main w h bufs 4) \<le> num (scale_state C ref main w h bufs 4)"
    by simp_all
  then show "1 \<le> score (compute_adm2 C ref main w h bufs)"
    by (auto simp: compute_adm2_fields)
qed

theorem zero_reference_score_witness:
  "length (dwt2_db2_coeffs_lo sample_consts) = 4 \<and> 0 \<le> ADM_BORDER_FACTOR sample_consts \<and>
   (9::int) \<le> 9 \<and> agree 9 9 zero_plane (\<lambda>i j. 0) \<and> (0::int) \<le> 0 \<and> (0::int) < 4 \<and>
   scores_out (compute_adm2 sample_consts zero_plane top_row_plane 9 9 zero_state) 1 \<le>
     scores_out (compute_adm2 sample_consts zero_plane top_row_plane 9 9 zero_state) 0 \<and>
   1 \<le> score (compute_adm2 sample_consts zero_plane top_row_plane 9 9 zero_state)"
proof -
  have h: "length (dwt2_db2_coeffs_lo sample_consts) = 4" "0 \<le> ADM_BORDER_FACTOR sample_consts"
    "(9::int) \<le> 9" "agree 9 9 zero_plane (\<lambda>i j. 0)"
    by (simp_all add: sample_consts_def agree_def zero_plane_def)
  from zero_reference_score [OF h(1) h(2) h(3) h(3) h(4), of top_row_plane zero_state]
  have "(\<forall>k. 0 \<le> k \<and> k < 4 \<longrightarrow>
          scores_out (compute_adm2 sample_consts zero_plane top_row_plane 9 9 zero_state) (2 * k + 1) \<le>
          scores_out (compute_adm2 sample_consts zero_plane top_row_plane 9 9 zero_state) (2 * k))"
    and s: "1 \<le> score (compute_adm2 sample_consts zero_plane top_row_plane 9 9 zero_state)"
    by blast+
  from this(1) [rule_format, of 0] s h show ?thesis by simp
qed

lemma int_0_4: "{0..<4::int} = {0, 1, 2, 3}"
  by auto

lemma pool_sum_nonneg: "0 \<le> pool_sum x w h b"
  by (simp add: pool_sum_def Let_def sum_nonneg)

lemma pool_sum_pos:
  assumes "c_trunc (real_of_int h * b - 1 / 2) \<le> i" "i < h - c_trunc (real_of_int h * b - 1 / 2)"
    and "c_trunc (real_of_int w * b - 1 / 2) \<le> j" "j < w - c_trunc (real_of_int w * b - 1 / 2)"
    and "x i j \<noteq> 0"
  shows "0 < pool_sum x w h b"
proof -
  define left where "left = c_trunc (real_of_int w * b - 1 / 2)"
  define top where "top = c_trunc (real_of_int h * b - 1 / 2)"
  have "0 < (\<Sum>j = left..<w - left. \<bar>x i j\<bar> ^ 3)"
    by (rule sum_pos2 [where i = j]) (use assms in \<open>simp_all add: left_def\<close>)
  then have "0 < (\<Sum>i = top..<h - top. \<Sum>j = left..<w - left. \<bar>x i j\<bar> ^ 3)"
    by (rule sum_pos2 [where i = i, rotated 2]) (use assms in \<open>simp_all add: top_def sum_nonneg\<close>)
  then show ?thesis by (simp add: pool_sum_def Let_def left_def top_def)
qed

lemma adm_sum_cube_gt:
  assumes "0 < pool_sum x w h b"
  shows "pool_stabilizer w h b < adm_sum_cube x w h b"
  using assms by (simp add: adm_sum_cube_pool)

text \<open>The scale \<open>n\<close> of a frame with a zero reference, in the final array of scores.\<close>

lemma zero_ref_scale:
  assumes len: "length (dwt2_db2_coeffs_lo C) = 4"
    and b: "0 \<le> ADM_BORDER_FACTOR C"
    and dims: "9 \<le> w" "9 \<le> h"
    and z: "agree w h ref (\<lambda>i j. 0)"
    and n4: "n < 4"
    and st': "st' = scale_state C ref main w h bufs (int (Suc n))"
  shows "scores (scale_state C ref main w h bufs 4) (2 * int n + 1) =
           3 * pool_stabilizer (cur_w st') (cur_h st') (ADM_BORDER_FACTOR C)"
    and "scores (scale_state C ref main w h bufs 4) (2 * int n) =
     0 + adm_sum_cube (\<lambda>i j. adm_csf_rfactor C (int n) ! 0 * band_h (main_dwt2 st') i j)
           (cur_w st') (cur_h st') (ADM_BORDER_FACTOR C)
       + adm_sum_cube (\<lambda>i j. adm_csf_rfactor C (int n) ! 1 * band_v (main_dwt2 st') i j)
           (cur_w st') (cur_h st') (ADM_BORDER_FACTOR C)
       + adm_sum_cube (\<lambda>i j. adm_csf_rfactor C (int n) ! 2 * band_d (main_dwt2 st') i j)
           (cur_w st') (cur_h st') (ADM_BORDER_FACTOR C)"
    and "scores (scale_state C ref main w h bufs 4) (2 * int n + 1) \<le>
         scores (scale_state C ref main w h bufs 4) (2 * int n)"
proof -
  define st where "st = scale_state C ref main w h bufs (int n)"
  have step': "st' = compute_adm2_scale C h (int n) st"
    by (simp only: st' st_def scale_state_Suc)
  from zero_ref_invariant [OF len b dims z, of n main bufs] n4
  have IH: "min_dim n \<le> cur_w st" "min_dim n \<le> cur_h st"
    "agree (cur_w st) (cur_h st) (curr_ref_scale st) (\<lambda>i j. 0)"
    by (simp_all add: st_def)
  have d2: "2 \<le> cur_w st" "2 \<le> cur_h st"
    using min_dim_ge2 [OF n4] IH(1,2) by blast+
  note step = scale_zero_ref [OF step' len b d2 IH(3)]
  have p: "scores (scale_state C ref main w h bufs (int 4)) x = scores st' x"
    if "x < 2 * int (Suc n)" for x
    unfolding st' using n4 that by (intro scores_persist) simp_all
  show "scores (scale_state C ref main w h bufs 4) (2 * int n + 1) =
           3 * pool_stabilizer (cur_w st') (cur_h st') (ADM_BORDER_FACTOR C)"
    using step(2) p [of "2 * int n + 1"] by simp
  show "scores (scale_state C ref main w h bufs 4) (2 * int n) =
     0 + adm_sum_cube (\<lambda>i j. adm_csf_rfactor C (int n) ! 0 * band_h (main_dwt2 st') i j)
           (cur_w st') (cur_h st') (ADM_BORDER_FACTOR C)
       + adm_sum_cube (\<lambda>i j. adm_csf_rfactor C (int n) ! 1 * band_v (main_dwt2 st') i j)
           (cur_w st') (cur_h st') (ADM_BORDER_FACTOR C)
       + adm_sum_cube (\<lambda>i j. adm_csf_rfactor C (int n) ! 2 * band_d (main_dwt2 st') i j)
           (cur_w st') (cur_h st') (ADM_BORDER_FACTOR C)"
    using step(3) p [of "2 * int n"] by simp
  show "scores (scale_state C ref main w h bufs 4) (2 * int n + 1) \<le>
         scores (scale_state C ref main w h bufs 4) (2 * int n)"
    using step(4) p [of "2 * int n + 1"] p [of "2 * int n"] by simp
qed

text \<open>The concrete frame: the H coefficient of the distorted plane at the first pixel of
  the first scale, the weight it is given, and the additive term of the first scale.\<close>

lemma sample_band_h_00:
  "fst (snd (snd (dwt2_spec sample_consts top_row_plane t1 t2 9 9 0 0))) \<noteq> 0"
  by (simp add: dwt2_spec_def Let_def sample_consts_def dwt2_taps_def int_0_4 dwt2_temp_def
      mirror_def top_row_plane_def)

lemma sample_rfactor_0: "adm_csf_rfactor sample_consts 0 ! 0 \<noteq> 0"
  by (simp add: adm_csf_rfactor_def Let_def dwt_quant_step_def sample_consts_def)

lemma sample_stabilizer: "75 / 32 \<le> 3 * pool_stabilizer 5 5 (1 / 10)"
proof -
  have "(25 / 32 :: real) powr 1 \<le> (25 / 32) powr (1 / 3)"
    by (rule powr_mono') simp_all
  then show ?thesis by (simp add: pool_stabilizer_def Let_def c_trunc_def)
qed

text \<open>
  The claim C3 as stated fails. For the 9 \<times> 9 frame whose reference is zero and whose
  distorted plane has ones in its first row, the denominator is above the noise floor
  (\<open>score_den\<close> stays positive) and the score is above 1.
\<close>

theorem zero_reference_counterexample:
  "0 < score_den (compute_adm2 sample_consts zero_plane top_row_plane 9 9 zero_state) \<and>
   1 < score (compute_adm2 sample_consts zero_plane top_row_plane 9 9 zero_state)"
proof -
  define S where "S = scale_state sample_consts zero_plane top_row_plane 9 9 zero_state"
  have len: "length (dwt2_db2_coeffs_lo sample_consts) = 4"
    and b: "0 \<le> ADM_BORDER_FACTOR sample_consts"
    and bf: "ADM_BORDER_FACTOR sample_consts = 1 / 10"
    by (simp_all add: sample_consts_def)
  have z: "agree 9 9 zero_plane (\<lambda>i j. 0)" by (simp add: agree_def zero_plane_def)
  have nine: "(9::int) \<le> 9" by simp
  note sc = zero_ref_scale [OF len b nine nine z, of _ _ top_row_plane zero_state]
  have S1: "S 1 = compute_adm2_scale sample_consts 9 0 (S 0)"
    using scale_state_step [of 0 sample_consts zero_plane top_row_plane 9 9 zero_state]
    by (simp add: S_def)
  have S0: "cur_w (S 0) = 9" "cur_h (S 0) = 9" "curr_main_scale (S 0) = top_row_plane"
    by (simp_all add: S_def scale_state_0 compute_adm2_init_def)
  have d1: "cur_w (S 1) = 5" "cur_h (S 1) = 5"
    by (simp_all add: S1 compute_adm2_scale_dims S0)
  \<comment> \<open>the H coefficient of the distorted plane at the pixel (0, 0) of the first scale\<close>
  have "inside (cur_w (S 1)) (cur_h (S 1)) 0 0" by (simp add: d1 inside_def)
  from scale_dwt_inside(2) [OF S1 this] obtain t1 t2 where
    "avhd (main_dwt2 (S 1)) 0 0 = dwt2_spec sample_consts top_row_plane t1 t2 9 9 0 0"
    by (auto simp: S0)
  then have "band_h (main_dwt2 (S 1)) 0 0 =
      fst (snd (snd (dwt2_spec sample_consts top_row_plane t1 t2 9 9 0 0)))"
    by (simp add: avhd_def [symmetric] avhd_sel)
  with sample_band_h_00 [of t1 t2] have h00: "band_h (main_dwt2 (S 1)) 0 0 \<noteq> 0" by simp
  \<comment> \<open>the first scale: the numerator is strictly above the denominator\<close>
  have "0 < pool_sum (\<lambda>i j. adm_csf_rfactor sample_consts 0 ! 0 * band_h (main_dwt2 (S 1)) i j)
             5 5 (1 / 10)"
    by (rule pool_sum_pos [where i = 0 and j = 0])
       (use h00 sample_rfactor_0 in \<open>simp_all add: c_trunc_def\<close>)
  from adm_sum_cube_gt [OF this]
  have gt: "pool_stabilizer 5 5 (1 / 10) <
      adm_sum_cube (\<lambda>i j. adm_csf_rfactor sample_consts 0 ! 0 * band_h (main_dwt2 (S 1)) i j)
        5 5 (1 / 10)" .
  have e1: "scores (S 4) 1 = 3 * pool_stabilizer 5 5 (1 / 10)"
    using sc(1) [of 0 "S 1"] by (simp add: S_def d1 [unfolded S_def] bf)
  have "scores (S 4) 0 =
      0 + adm_sum_cube (\<lambda>i j. adm_csf_rfactor sample_consts 0 ! 0 * band_h (main_dwt2 (S 1)) i j)
            5 5 (1 / 10)
        + adm_sum_cube (\<lambda>i j. adm_csf_rfactor sample_consts 0 ! 1 * band_v (main_dwt2 (S 1)) i j)
            5 5 (1 / 10)
        + adm_sum_cube (\<lambda>i j. adm_csf_rfactor sample_consts 0 ! 2 * band_d (main_dwt2 (S 1)) i j)
            5 5 (1 / 10)"
    using sc(2) [of 0 "S 1"] by (simp add: S_def d1 [unfolded S_def] bf)
  with gt e1
    adm_sum_cube_ge [of 5 5 "1 / 10"
      "\<lambda>i j. adm_csf_rfactor sample_consts 0 ! 1 * band_v (main_dwt2 (S 1)) i j"]
    adm_sum_cube_ge [of 5 5 "1 / 10"
      "\<lambda>i j. adm_csf_rfactor sample_consts 0 ! 2 * band_d (main_dwt2 (S 1)) i j"]
  have lt0: "scores (S 4) 1 < scores (S 4) 0" by simp
  \<comment> \<open>the other scales\<close>
  have le1: "scores (S 4) 3 \<le> scores (S 4) 2"
    using sc(3) [of 1 "S 2"] by (simp add: S_def)
  have le2: "scores (S 4) 5 \<le> scores (S 4) 4"
    using sc(3) [of 2 "S 3"] by (simp add: S_def)
  have le3: "scores (S 4) 7 \<le> scores (S 4) 6"
    using sc(3) [of 3 "S 4"] by (simp add: S_def)
  have p1: "0 \<le> scores (S 4) 3"
    using sc(1) [of 1 "S 2"] pool_stabilizer_nonneg by (simp add: S_def)
  have p2: "0 \<le> scores (S 4) 5"
    using sc(1) [of 2 "S 3"] pool_stabilizer_nonneg by (simp add: S_def)
  have p3: "0 \<le> scores (S 4) 7"
    using sc(1) [of 3 "S 4"] pool_stabilizer_nonneg by (simp add: S_def)
  have den: "75 / 32 \<le> den (S 4)"
    using scale_state_sums(2) [of sample_consts zero_plane top_row_plane 9 9 zero_state]
      e1 sample_stabilizer p1 p2 p3 by (simp add: S_def)
  have num: "den (S 4) < num (S 4)"
    using scale_state_sums [of sample_consts zero_plane top_row_plane 9 9 zero_state]
      lt0 le1 le2 le3 by (simp add: S_def)
  from den num show ?thesis
    by (simp add: compute_adm2_fields S_def [symmetric])
qed

subsection \<open>compute\_adm2: the noise floor is not reached\<close>

text \<open>The additive term of the first scale against the noise floor: the pooled region
  keeps at least a quarter of the width and of the height of the frame, and
  \<open>3 (A / 512)\<^sup>1\<^sup>/\<^sup>3 \<ge> A / 207360000\<close> for a number of pixels \<open>A < 2\<^sup>3\<^sup>1\<close>.\<close>

lemma cube_root_bound:
  fixes A :: real
  assumes "1 \<le> A" "A < 2 ^ 31"
  shows "A / 622080000 \<le> (A / 512) powr (1 / 3)"
proof -
  define y where "y = A / 622080000"
  have y0: "0 < y" using assms(1) by (simp add: y_def)
  have "A * A \<le> 2 ^ 31 * 2 ^ 31"
    using assms by (intro mult_mono) simp_all
  then have "A * A * 512 \<le> 622080000 ^ 3" by simp
  then have "A * (A * A * 512) \<le> A * 622080000 ^ 3"
    using assms(1) by (intro mult_left_mono) simp_all
  then have "y ^ 3 \<le> A / 512"
    by (simp add: y_def power3_eq_cube field_simps)
  then have "(y ^ 3) powr (1 / 3) \<le> (A / 512) powr (1 / 3)"
    using y0 by (intro powr_mono2) simp_all
  moreover have "(y ^ 3) powr (1 / 3) = y"
  proof -
    have "y powr 3 = y ^ 3" using y0 by (simp add: powr_numeral)
    then have "(y ^ 3) powr (1 / 3) = (y powr 3) powr (1 / 3)" by (simp only:)
    also have "\<dots> = y powr (3 * (1 / 3))" by (rule powr_powr)
    also have "\<dots> = y" using y0 by simp
    finally show ?thesis .
  qed
  ultimately show ?thesis by (simp add: y_def)
qed

lemma pool_edge_quarter:
  assumes "0 \<le> b" "b \<le> 1 / 4" "0 \<le> n"
  shows "0 \<le> c_trunc (real_of_int n * b - 1 / 2) \<and>
         real_of_int (c_trunc (real_of_int n * b - 1 / 2)) \<le> real_of_int n / 4"
proof -
  have nb: "0 \<le> real_of_int n * b" "real_of_int n * b \<le> real_of_int n * (1 / 4)"
    using assms by (simp, intro mult_left_mono, simp_all)
  show ?thesis
  proof (cases "0 \<le> real_of_int n * b - 1 / 2")
    case True
    then have ct: "c_trunc (real_of_int n * b - 1 / 2) = \<lfloor>real_of_int n * b - 1 / 2\<rfloor>"
      by (simp add: c_trunc_def)
    have fl: "real_of_int \<lfloor>real_of_int n * b - 1 / 2\<rfloor> \<le> real_of_int n * b - 1 / 2"
      by (rule of_int_floor_le)
    have f0: "0 \<le> \<lfloor>real_of_int n * b - 1 / 2\<rfloor>" using True by simp
    have "real_of_int \<lfloor>real_of_int n * b - 1 / 2\<rfloor> \<le> real_of_int n / 4"
      using fl nb(2) by linarith
    with f0 show ?thesis unfolding ct by blast
  next
    case False
    then have "c_trunc (real_of_int n * b - 1 / 2) = \<lceil>real_of_int n * b - 1 / 2\<rceil>"
      by (simp add: c_trunc_def)
    moreover have "\<lceil>real_of_int n * b - 1 / 2\<rceil> = 0"
      using False nb(1) by (simp add: ceiling_eq_iff)
    ultimately show ?thesis using assms(3) by simp
  qed
qed

lemma pool_stabilizer_lower:
  assumes b: "0 \<le> b" "b \<le> 1 / 4" and w: "0 < w" and h: "0 < h" and wh: "w * h < 2 ^ 31"
  shows "1 / 100 * real_of_int (w * h) / (1920 * 1080) \<le>
         3 * pool_stabilizer ((w + 1) div 2) ((h + 1) div 2) b"
proof -
  define w1 where "w1 = (w + 1) div 2"
  define h1 where "h1 = (h + 1) div 2"
  define left where "left = c_trunc (real_of_int w1 * b - 1 / 2)"
  define top where "top = c_trunc (real_of_int h1 * b - 1 / 2)"
  have w1: "0 \<le> w1" "real_of_int w \<le> 2 * real_of_int w1"
    using w by (simp add: w1_def, unfold w1_def, linarith)
  have h1: "0 \<le> h1" "real_of_int h \<le> 2 * real_of_int h1"
    using h by (simp add: h1_def, unfold h1_def, linarith)
  have l: "real_of_int left \<le> real_of_int w1 / 4"
    unfolding left_def using pool_edge_quarter [OF b w1(1)] by simp
  have t: "real_of_int top \<le> real_of_int h1 / 4"
    unfolding top_def using pool_edge_quarter [OF b h1(1)] by simp
  have width: "real_of_int w / 4 \<le> real_of_int (w1 - left - left)" using l w1(2) by simp
  have height: "real_of_int h / 4 \<le> real_of_int (h1 - top - top)" using t h1(2) by simp
  have "real_of_int h / 4 * (real_of_int w / 4) \<le>
        real_of_int (h1 - top - top) * real_of_int (w1 - left - left)"
    using width height w h by (intro mult_mono) simp_all
  then have area: "real_of_int (w * h) / 512 \<le>
        real_of_int (h1 - top - top) * real_of_int (w1 - left - left) / 32"
    by (simp add: field_simps)
  have A: "1 \<le> real_of_int (w * h)" "real_of_int (w * h) < 2 ^ 31"
  proof -
    have "0 < w * h" using w h by simp
    then have "1 \<le> w * h" by linarith
    then show "1 \<le> real_of_int (w * h)" by linarith
    from wh have "real_of_int (w * h) < real_of_int (2 ^ 31)" by (simp only: of_int_less_iff)
    then show "real_of_int (w * h) < 2 ^ 31" by simp
  qed
  have "real_of_int (w * h) / 622080000 \<le> (real_of_int (w * h) / 512) powr (1 / 3)"
    by (rule cube_root_bound [OF A])
  also have "\<dots> \<le> (real_of_int (h1 - top - top) * real_of_int (w1 - left - left) / 32) powr (1 / 3)"
    using area A(1) by (intro powr_mono2) simp_all
  also have "\<dots> = pool_stabilizer w1 h1 b"
    by (simp add: pool_stabilizer_def Let_def left_def top_def)
  finally show ?thesis by (simp add: w1_def h1_def)
qed

lemma scale_scores_ge:
  "3 * pool_stabilizer (cur_w (compute_adm2_scale C oh k st)) (cur_h (compute_adm2_scale C oh k st))
         (ADM_BORDER_FACTOR C) \<le> scores (compute_adm2_scale C oh k st) (2 * k)"
  "3 * pool_stabilizer (cur_w (compute_adm2_scale C oh k st)) (cur_h (compute_adm2_scale C oh k st))
         (ADM_BORDER_FACTOR C) \<le> scores (compute_adm2_scale C oh k st) (2 * k + 1)"
proof -
  define st' where "st' = compute_adm2_scale C oh k st"
  note ge = adm_sum_cube_ge [of "cur_w st'" "cur_h st'" "ADM_BORDER_FACTOR C"]
  show "3 * pool_stabilizer (cur_w (compute_adm2_scale C oh k st)) (cur_h (compute_adm2_scale C oh k st))
         (ADM_BORDER_FACTOR C) \<le> scores (compute_adm2_scale C oh k st) (2 * k)"
    unfolding compute_adm2_scale_num_den(1)
    using ge [of "band_h (cm_r st')"] ge [of "band_v (cm_r st')"] ge [of "band_d (cm_r st')"]
    by (simp add: st'_def)
  show "3 * pool_stabilizer (cur_w (compute_adm2_scale C oh k st)) (cur_h (compute_adm2_scale C oh k st))
         (ADM_BORDER_FACTOR C) \<le> scores (compute_adm2_scale C oh k st) (2 * k + 1)"
    unfolding compute_adm2_scale_num_den(2)
    using ge [of "band_h (csf_o st')"] ge [of "band_v (csf_o st')"] ge [of "band_d (csf_o st')"]
    by (simp add: st'_def)
qed

lemma final_scores_ge:
  assumes "n < 4"
  shows "3 * pool_stabilizer (cur_w (scale_state C ref main w h bufs (int (Suc n))))
           (cur_h (scale_state C ref main w h bufs (int (Suc n)))) (ADM_BORDER_FACTOR C)
         \<le> scores (scale_state C ref main w h bufs 4) (2 * int n)"
    and "3 * pool_stabilizer (cur_w (scale_state C ref main w h bufs (int (Suc n))))
           (cur_h (scale_state C ref main w h bufs (int (Suc n)))) (ADM_BORDER_FACTOR C)
         \<le> scores (scale_state C ref main w h bufs 4) (2 * int n + 1)"
proof -
  have p: "scores (scale_state C ref main w h bufs (int 4)) x =
           scores (scale_state C ref main w h bufs (int (Suc n))) x"
    if "x < 2 * int (Suc n)" for x
    using assms that by (intro scores_persist) simp_all
  show "3 * pool_stabilizer (cur_w (scale_state C ref main w h bufs (int (Suc n))))
           (cur_h (scale_state C ref main w h bufs (int (Suc n)))) (ADM_BORDER_FACTOR C)
         \<le> scores (scale_state C ref main w h bufs 4) (2 * int n)"
    using scale_scores_ge(1) [of C h "int n" "scale_state C ref main w h bufs (int n)"]
      p [of "2 * int n"]
    by (simp only: scale_state_Suc) simp
  show "3 * pool_stabilizer (cur_w (scale_state C ref main w h bufs (int (Suc n))))
           (cur_h (scale_state C ref main w h bufs (int (Suc n)))) (ADM_BORDER_FACTOR C)
         \<le> scores (scale_state C ref main w h bufs 4) (2 * int n + 1)"
    using scale_scores_ge(2) [of C h "int n" "scale_state C ref main w h bufs (int n)"]
      p [of "2 * int n + 1"]
    by (simp only: scale_state_Suc) simp
qed

text \<open>
  C4. The sums that \<^verbatim>\<open>compute_adm2\<close> returns are the sums of the four per-scale
  entries: \<open>score_num = scores[0] + scores[2] + scores[4] + scores[6]\<close> and
  \<open>score_den = scores[1] + scores[3] + scores[5] + scores[7]\<close>, for every pair of planes
  and every frame whose number of pixels \<open>w h\<close> is a positive C \<^verbatim>\<open>int\<close>. The noise floor
  does not interfere: each per-scale entry is at least three times the additive term of
  \<^verbatim>\<open>adm_sum_cube\<close>, which alone exceeds \<open>1e-2 (w h) / (1920 \<times> 1080)\<close> at the first scale.
  (The border factor, a constant of adm.h, is taken between 0 and 1/4.)
\<close>

theorem scale_additivity:
  assumes b: "0 \<le> ADM_BORDER_FACTOR C" "ADM_BORDER_FACTOR C \<le> 1 / 4"
    and w: "0 < w" and h: "0 < h" and wh: "w * h < 2 ^ 31"
  shows "score_num (compute_adm2 C ref main w h bufs) =
           scores_out (compute_adm2 C ref main w h bufs) 0 +
           scores_out (compute_adm2 C ref main w h bufs) 2 +
           scores_out (compute_adm2 C ref main w h bufs) 4 +
           scores_out (compute_adm2 C ref main w h bufs) 6 \<and>
         score_den (compute_adm2 C ref main w h bufs) =
           scores_out (compute_adm2 C ref main w h bufs) 1 +
           scores_out (compute_adm2 C ref main w h bufs) 3 +
           scores_out (compute_adm2 C ref main w h bufs) 5 +
           scores_out (compute_adm2 C ref main w h bufs) 7"
proof -
  define S where "S = scale_state C ref main w h bufs"
  define limit where "limit = 1 / 100 * real_of_int (w * h) / (1920 * 1080)"
  have d1: "cur_w (S 1) = (w + 1) div 2" "cur_h (S 1) = (h + 1) div 2"
    using scale_state_step [of 0 C ref main w h bufs]
    by (simp_all add: S_def scale_state_0 compute_adm2_scale_dims compute_adm2_init_def)
  have lim: "limit \<le> 3 * pool_stabilizer (cur_w (S 1)) (cur_h (S 1)) (ADM_BORDER_FACTOR C)"
    unfolding limit_def d1 by (rule pool_stabilizer_lower [OF b w h wh])
  note ge = final_scores_ge [of _ C ref main w h bufs, folded S_def]
  note nn = pool_stabilizer_nonneg
  have s0: "limit \<le> scores (S 4) 0" "limit \<le> scores (S 4) 1"
    using ge [of 0] lim by simp_all
  have s1: "0 \<le> scores (S 4) 2" "0 \<le> scores (S 4) 3"
    using ge [of 1] nn [of "cur_w (S (int (Suc 1)))" "cur_h (S (int (Suc 1)))" "ADM_BORDER_FACTOR C"]
    by simp_all
  have s2: "0 \<le> scores (S 4) 4" "0 \<le> scores (S 4) 5"
    using ge [of 2] nn [of "cur_w (S (int (Suc 2)))" "cur_h (S (int (Suc 2)))" "ADM_BORDER_FACTOR C"]
    by simp_all
  have s3: "0 \<le> scores (S 4) 6" "0 \<le> scores (S 4) 7"
    using ge [of 3] nn [of "cur_w (S (int (Suc 3)))" "cur_h (S (int (Suc 3)))" "ADM_BORDER_FACTOR C"]
    by simp_all
  have nd: "\<not> num (S 4) < limit" "\<not> den (S 4) < limit"
    using scale_state_sums [of C ref main w h bufs, folded S_def] s0 s1 s2 s3 by simp_all
  have "score_num (compute_adm2 C ref main w h bufs) = (if num (S 4) < limit then 0 else num (S 4))"
    "score_den (compute_adm2 C ref main w h bufs) = (if den (S 4) < limit then 0 else den (S 4))"
    "scores_out (compute_adm2 C ref main w h bufs) = scores (S 4)"
    by (simp_all only: compute_adm2_fields S_def limit_def)
  with nd show ?thesis
    using scale_state_sums [of C ref main w h bufs, folded S_def]
    by (simp only: if_False) simp
qed

theorem scale_additivity_witness:
  "0 \<le> ADM_BORDER_FACTOR sample_consts \<and> ADM_BORDER_FACTOR sample_consts \<le> 1 / 4 \<and>
   (0::int) < 9 \<and> (9::int) * 9 < 2 ^ 31 \<and>
   score_num (compute_adm2 sample_consts ramp_plane top_row_plane 9 9 zero_state) =
     scores_out (compute_adm2 sample_consts ramp_plane top_row_plane 9 9 zero_state) 0 +
     scores_out (compute_adm2 sample_consts ramp_plane top_row_plane 9 9 zero_state) 2 +
     scores_out (compute_adm2 sample_consts ramp_plane top_row_plane 9 9 zero_state) 4 +
     scores_out (compute_adm2 sample_consts ramp_plane top_row_plane 9 9 zero_state) 6 \<and>
   score_den (compute_adm2 sample_consts ramp_plane top_row_plane 9 9 zero_state) =
     scores_out (compute_adm2 sample_consts ramp_plane top_row_plane 9 9 zero_state) 1 +
     scores_out (compute_adm2 sample_consts ramp_plane top_row_plane 9 9 zero_state) 3 +
     scores_out (compute_adm2 sample_consts ramp_plane top_row_plane 9 9 zero_state) 5 +
     scores_out (compute_adm2 sample_consts ramp_plane top_row_plane 9 9 zero_state) 7"
proof -
  have h: "0 \<le> ADM_BORDER_FACTOR sample_consts" "ADM_BORDER_FACTOR sample_consts \<le> 1 / 4"
    "(0::int) < 9" "(9::int) * 9 < 2 ^ 31"
    by (simp_all add: sample_consts_def)
  from scale_additivity [OF h(1) h(2) h(3) h(3) h(4), of ramp_plane top_row_plane zero_state] h
  show ?thesis by simp
qed

end
